theory Spec2Isabelle
  imports Main "HOL-Library.Word"
begin

unbundle bit_operations_syntax

section \<open>The WhisperKit sidecar: protocol loop and transcription engine\<close>

text \<open>
  A shallow embedding of \<^verbatim>\<open>whisperkit-sidecar/Sources/WhisperKitSidecar/main.swift\<close>.

  A Swift \<^verbatim>\<open>String\<close> is modelled by its UTF-8 bytes (\<open>string\<close>). The only comparisons the
  code makes are against lower-case ASCII literals (\<^verbatim>\<open>"load"\<close>, \<^verbatim>\<open>"auto"\<close>, ...), for which
  Swift's equality and equality of the bytes agree.

  The process state is one record: the stored property of the engine actor, the two
  output streams, and the world outside the process that the collaborators (model loader,
  file system, inference) read and change. The main loop awaits every engine call before it
  goes on, so the actor is used by one caller at a time and plain state passing models it.
\<close>

subsection \<open>JSON protocol types\<close>

text \<open>
  The fields are those of the two structs. \<^verbatim>\<open>Request.type\<close> and \<^verbatim>\<open>Request.language\<close> are
  called \<open>req_type\<close> and \<open>req_language\<close> here, because \<^verbatim>\<open>Response\<close> and \<^verbatim>\<open>DecodingOptions\<close>
  have fields of the same names.
\<close>

record Request =
  req_type :: string
  model_path :: "string option"
  audio_path :: "string option"
  req_language :: "string option"

record Response =
  type :: string
  success :: "bool option"
  "text" :: "string option"
  error :: "string option"
  model_loaded :: "bool option"

text \<open>
  The memberwise initialiser of \<^verbatim>\<open>Response\<close>: \<^verbatim>\<open>type\<close> is a \<^verbatim>\<open>let\<close> and has to be given, the
  four \<^verbatim>\<open>var\<close> optionals default to \<^verbatim>\<open>nil\<close>.
\<close>

definition Response_init :: "string \<Rightarrow> Response" where
  "Response_init t = \<lparr>type = t, success = None, text = None, error = None, model_loaded = None\<rparr>"

text \<open>
  \<^verbatim>\<open>Response\<close> is \<^verbatim>\<open>Encodable\<close> with no \<^verbatim>\<open>encode(to:)\<close> of its own. The conformance the
  compiler derives writes a non-optional property with \<^verbatim>\<open>encode\<close> and an optional one with
  \<^verbatim>\<open>encodeIfPresent\<close>, so a \<^verbatim>\<open>nil\<close> property leaves no member in the object. The encoded
  object is kept as its list of members (in declaration order; the encoder promises no
  order, and no statement below depends on one).
\<close>

datatype json = JNull | JBool bool | JString string

type_synonym json_object = "(string \<times> json) list"

definition encodeIfPresent :: "string \<Rightarrow> ('a \<Rightarrow> json) \<Rightarrow> 'a option \<Rightarrow> json_object" where
  "encodeIfPresent key f v = (case v of None \<Rightarrow> [] | Some x \<Rightarrow> [(key, f x)])"

definition encode :: "Response \<Rightarrow> json_object" where
  "encode r =
     [(''type'', JString (type r))]
     @ encodeIfPresent ''success'' JBool (success r)
     @ encodeIfPresent ''text'' JString (text r)
     @ encodeIfPresent ''error'' JString (error r)
     @ encodeIfPresent ''model_loaded'' JBool (model_loaded r)"

subsection \<open>Errors\<close>

text \<open>
  What is thrown inside the \<^verbatim>\<open>do\<close> blocks: the engine's own \<^verbatim>\<open>NSError\<close> (domain, code and
  the \<^verbatim>\<open>NSLocalizedDescriptionKey\<close> entry of its user info), or whatever a collaborator
  throws, of which the loop only ever reads \<^verbatim>\<open>localizedDescription\<close>.
\<close>

datatype swift_error = NSError string int string | Thrown string

fun localizedDescription :: "swift_error \<Rightarrow> string" where
  "localizedDescription (NSError domain code description) = description"
| "localizedDescription (Thrown description) = description"

subsection \<open>Raw audio\<close>

text \<open>
  \<^verbatim>\<open>Data\<close> is a list of bytes. A \<^verbatim>\<open>Float\<close> is kept as its 32-bit IEEE pattern: the code
  only copies samples, it never computes with them. \<^verbatim>\<open>floatBuffer[i]\<close> reads the four
  bytes at offset \<open>4 * i\<close> of the bound memory; the binary is built for \<^verbatim>\<open>arm64\<close>
  (\<^verbatim>\<open>build.sh\<close>), which is little-endian, so the first byte is the least significant one.
\<close>

type_synonym byte = "8 word"
type_synonym Float = "32 word"

definition MemoryLayout_Float_size :: nat where
  "MemoryLayout_Float_size = 4"

definition floatBuffer :: "byte list \<Rightarrow> nat \<Rightarrow> Float" where
  "floatBuffer rawBuffer i =
     (let b = drop (MemoryLayout_Float_size * i) rawBuffer
      in ucast (b ! 0) OR push_bit 8 (ucast (b ! 1))
         OR push_bit 16 (ucast (b ! 2)) OR push_bit 24 (ucast (b ! 3)))"

text \<open>
  Lines 47 to 54: the sample array is allocated zero-filled with \<^verbatim>\<open>floatCount\<close> entries and
  the loop \<^verbatim>\<open>for i in 0..<floatCount\<close> overwrites entry \<open>i\<close> with \<^verbatim>\<open>floatBuffer[i]\<close>. Every
  index the loop uses is below \<^verbatim>\<open>floatCount\<close>, inside both the array and the bound buffer.
\<close>

definition decodeAudio :: "byte list \<Rightarrow> Float list" where
  "decodeAudio audioData =
     (let floatCount = length audioData div MemoryLayout_Float_size;
          audioSamples = replicate floatCount 0
      in fold (\<lambda>i samples. samples[i := floatBuffer audioData i]) [0..<floatCount] audioSamples)"

text \<open>
  Not part of the program: the audio fixture of the specification's round trip, "N complete
  little-endian float32 samples", each sample as its four bytes, least significant first.
\<close>

definition littleEndianBytes :: "Float \<Rightarrow> byte list" where
  "littleEndianBytes x =
     [ucast x, ucast (drop_bit 8 x), ucast (drop_bit 16 x), ucast (drop_bit 24 x)]"

definition audioFixture :: "Float list \<Rightarrow> byte list" where
  "audioFixture samples = concat (map littleEndianBytes samples)"

subsection \<open>Text assembly\<close>

text \<open>
  \<^verbatim>\<open>joined(separator:)\<close> puts the separator between neighbours only.
\<close>

fun joined :: "string \<Rightarrow> string list \<Rightarrow> string" where
  "joined separator [] = []"
| "joined separator [x] = x"
| "joined separator (x # y # ys) = x @ separator @ joined separator (y # ys)"

text \<open>
  \<^verbatim>\<open>trimmingCharacters(in:)\<close> works on Unicode scalars, not on bytes: it drops scalars of
  the set from the front while there are some, and likewise from the back. In UTF-8 a
  scalar is one byte that is not a continuation byte (\<open>10xxxxxx\<close>) followed by its
  continuation bytes, so the byte string is first cut into scalars.
\<close>

definition isContinuationByte :: "char \<Rightarrow> bool" where
  "isContinuationByte c = (128 \<le> (of_char c :: nat) \<and> (of_char c :: nat) < 192)"

function unicodeScalars :: "string \<Rightarrow> string list" where
  "unicodeScalars [] = []"
| "unicodeScalars (c # cs) =
     (c # takeWhile isContinuationByte cs) # unicodeScalars (dropWhile isContinuationByte cs)"
  by pat_completeness auto
termination
  by (relation "measure length") (auto simp: less_Suc_eq_le length_dropWhile_le)

definition trimmingCharacters :: "(string \<Rightarrow> bool) \<Rightarrow> string \<Rightarrow> string" where
  "trimmingCharacters characterSet s =
     concat (rev (dropWhile characterSet (rev (dropWhile characterSet (unicodeScalars s)))))"

subsection \<open>Collaborators\<close>

text \<open>
  The sidecar assigns three properties of WhisperKit's \<^verbatim>\<open>DecodingOptions\<close>; the value that
  \<^verbatim>\<open>DecodingOptions()\<close> starts from belongs to WhisperKit and is a parameter.
\<close>

record DecodingOptions =
  language :: "string option"
  skipSpecialTokens :: bool
  withoutTimestamps :: bool

datatype TranscriptionResult = TranscriptionResult (result_text: string)

text \<open>
  Everything the program calls but does not define. A call that can throw returns a sum;
  a call that touches the outside takes the world and returns the world it leaves behind,
  so that a call which is not made is visible as a world that did not change. Every call
  is taken to return: the program has no timeout, and a call that never returns leaves the
  loop waiting in it.
  \<^item> \<open>WhisperKit_init\<close>: \<^verbatim>\<open>try await WhisperKit(config)\<close>, where \<^verbatim>\<open>config\<close> is fixed but for
    the model folder;
  \<^item> \<open>Data_contentsOf\<close>: \<^verbatim>\<open>try Data(contentsOf: URL(fileURLWithPath: audioPath))\<close>;
  \<^item> \<open>kit_transcribe\<close>: \<^verbatim>\<open>try await kit.transcribe(audioArray:decodeOptions:)\<close>;
  \<^item> \<open>DecodingOptions_init\<close>: \<^verbatim>\<open>DecodingOptions()\<close>;
  \<^item> \<open>JSONDecoder_decode\<close>: \<^verbatim>\<open>try? decoder.decode(Request.self, from:)\<close> on the UTF-8 bytes
    of the line;
  \<^item> \<open>whitespacesAndNewlines\<close>: membership of one scalar (its UTF-8 bytes) in
    \<^verbatim>\<open>CharacterSet.whitespacesAndNewlines\<close>.
\<close>

record ('kit, 'world) Collaborators =
  WhisperKit_init :: "string \<Rightarrow> 'world \<Rightarrow> (swift_error + 'kit) \<times> 'world"
  Data_contentsOf :: "string \<Rightarrow> 'world \<Rightarrow> (swift_error + byte list) \<times> 'world"
  kit_transcribe ::
    "'kit \<Rightarrow> Float list \<Rightarrow> DecodingOptions \<Rightarrow> 'world
       \<Rightarrow> (swift_error + TranscriptionResult list) \<times> 'world"
  DecodingOptions_init :: DecodingOptions
  JSONDecoder_decode :: "string \<Rightarrow> Request option"
  whitespacesAndNewlines :: "string \<Rightarrow> bool"

subsection \<open>Process state\<close>

text \<open>
  \<open>whisperKit\<close> is the engine's stored property: \<open>None\<close> is the state Unloaded, \<open>Some kit\<close>
  is Loaded with that handle. \<^verbatim>\<open>print\<close> appends a line to the buffer of standard output
  and \<^verbatim>\<open>fflush(stdout)\<close> hands the buffer to the reader; a line of standard output is kept
  as the JSON object it encodes. Standard error is written unbuffered.
\<close>

record ('kit, 'world) Sidecar =
  whisperKit :: "'kit option"
  world :: 'world
  stdout_buffer :: "json_object list"
  stdout :: "json_object list"
  stderr :: "string list"

definition isModelLoaded :: "('kit, 'world) Sidecar \<Rightarrow> bool" where
  "isModelLoaded s = (whisperKit s \<noteq> None)"

definition log :: "string \<Rightarrow> ('kit, 'world) Sidecar \<Rightarrow> ('kit, 'world) Sidecar" where
  "log message s =
     s\<lparr>stderr := stderr s @ [''[whisperkit-sidecar] '' @ message @ [CHR 0x0A]]\<rparr>"

definition print :: "json_object \<Rightarrow> ('kit, 'world) Sidecar \<Rightarrow> ('kit, 'world) Sidecar" where
  "print json s = s\<lparr>stdout_buffer := stdout_buffer s @ [json]\<rparr>"

definition fflush_stdout :: "('kit, 'world) Sidecar \<Rightarrow> ('kit, 'world) Sidecar" where
  "fflush_stdout s = s\<lparr>stdout := stdout s @ stdout_buffer s, stdout_buffer := []\<rparr>"

subsection \<open>The engine: \<^verbatim>\<open>actor TranscriptionEngine\<close>\<close>

text \<open>
  \<^verbatim>\<open>loadModel\<close>: the assignment to \<^verbatim>\<open>whisperKit\<close> happens only after \<^verbatim>\<open>WhisperKit(config)\<close> has
  returned; when it throws, the function is left with the stored property as it was.
\<close>

definition loadModel ::
  "('kit, 'world) Collaborators \<Rightarrow> string \<Rightarrow> ('kit, 'world) Sidecar
     \<Rightarrow> (swift_error + unit) \<times> ('kit, 'world) Sidecar" where
  "loadModel env path s =
     (let s1 = log (''Loading model from: '' @ path) s;
          (made, w) = WhisperKit_init env path (world s1)
      in case made of
           Inl e \<Rightarrow> (Inl e, s1\<lparr>world := w\<rparr>)
         | Inr kit \<Rightarrow>
             (Inr (), log ''Model loaded successfully'' (s1\<lparr>world := w, whisperKit := Some kit\<rparr>)))"

text \<open>Lines 56 to 61: the options handed to the inference call.\<close>

definition decodeOptions ::
  "('kit, 'world) Collaborators \<Rightarrow> string option \<Rightarrow> DecodingOptions" where
  "decodeOptions env language' =
     (let options = DecodingOptions_init env;
          options = (case language' of
                       None \<Rightarrow> options
                     | Some lang \<Rightarrow> if lang \<noteq> ''auto'' then options\<lparr>language := Some lang\<rparr>
                                   else options);
          options = options\<lparr>skipSpecialTokens := True\<rparr>;
          options = options\<lparr>withoutTimestamps := True\<rparr>
      in options)"

text \<open>Line 65: the text made of the results.\<close>

definition resultText ::
  "('kit, 'world) Collaborators \<Rightarrow> TranscriptionResult list \<Rightarrow> string" where
  "resultText env results =
     trimmingCharacters (whitespacesAndNewlines env) (joined '' '' (map result_text results))"

definition transcribe ::
  "('kit, 'world) Collaborators \<Rightarrow> string \<Rightarrow> string option \<Rightarrow> ('kit, 'world) Sidecar
     \<Rightarrow> (swift_error + string) \<times> ('kit, 'world) Sidecar" where
  "transcribe env audioPath language' s =
     (case whisperKit s of
        None \<Rightarrow> (Inl (NSError ''WhisperKitSidecar'' 1 ''No model loaded''), s)
      | Some kit \<Rightarrow>
          (let s1 = log (''Transcribing: '' @ audioPath @ '', language: ''
                          @ (case language' of None \<Rightarrow> ''auto'' | Some l \<Rightarrow> l)) s;
               (read, w1) = Data_contentsOf env audioPath (world s1)
           in case read of
                Inl e \<Rightarrow> (Inl e, s1\<lparr>world := w1\<rparr>)
              | Inr audioData \<Rightarrow>
                  (let audioSamples = decodeAudio audioData;
                       options = decodeOptions env language';
                       (inferred, w2) = kit_transcribe env kit audioSamples options w1
                   in case inferred of
                        Inl e \<Rightarrow> (Inl e, s1\<lparr>world := w2\<rparr>)
                      | Inr results \<Rightarrow>
                          (let text' = resultText env results
                           in (Inr text',
                               log (''Transcription result: '' @ text') (s1\<lparr>world := w2\<rparr>))))))"

definition unloadModel :: "('kit, 'world) Sidecar \<Rightarrow> ('kit, 'world) Sidecar" where
  "unloadModel s = log ''Model unloaded'' (s\<lparr>whisperKit := None\<rparr>)"

subsection \<open>The main loop\<close>

text \<open>
  Writing one reply (lines 101 to 104, 145 to 148 and 156 to 159): encode, print, flush.
  Encoding a \<^verbatim>\<open>Response\<close> (strings and booleans in a keyed container) has no failing case
  and its output is UTF-8, so the two \<^verbatim>\<open>if let\<close> bindings always succeed.
\<close>

definition reply :: "Response \<Rightarrow> ('kit, 'world) Sidecar \<Rightarrow> ('kit, 'world) Sidecar" where
  "reply response s = fflush_stdout (print (encode response) s)"

text \<open>What the loop does after one line: read the next one, or leave the process.\<close>

datatype control = Continue | Exit int

text \<open>
  The \<^verbatim>\<open>switch\<close> on \<^verbatim>\<open>request.type\<close>, cases in the order of the source. Every case but
  \<^verbatim>\<open>"shutdown"\<close> sets \<^verbatim>\<open>response\<close> and falls out of the \<^verbatim>\<open>switch\<close> to the common reply at
  lines 156 to 159; \<^verbatim>\<open>"shutdown"\<close> writes its own reply and calls \<^verbatim>\<open>exit(0)\<close>.
\<close>

definition switch ::
  "('kit, 'world) Collaborators \<Rightarrow> Request \<Rightarrow> ('kit, 'world) Sidecar
     \<Rightarrow> ('kit, 'world) Sidecar \<times> control" where
  "switch env request s =
     (if req_type request = ''load'' then
        (case model_path request of
           None \<Rightarrow>
             (reply ((Response_init ''loaded'')
                       \<lparr>success := Some False, error := Some ''Missing model_path''\<rparr>) s,
              Continue)
         | Some modelPath \<Rightarrow>
             (case loadModel env modelPath s of
                (Inr _, s') \<Rightarrow>
                  (reply ((Response_init ''loaded'')\<lparr>success := Some True\<rparr>) s', Continue)
              | (Inl e, s') \<Rightarrow>
                  (reply ((Response_init ''loaded'')
                            \<lparr>success := Some False, error := Some (localizedDescription e)\<rparr>) s',
                   Continue)))
      else if req_type request = ''transcribe'' then
        (case audio_path request of
           None \<Rightarrow>
             (reply ((Response_init ''transcription'')
                       \<lparr>success := Some False, error := Some ''Missing audio_path''\<rparr>) s,
              Continue)
         | Some audioPath \<Rightarrow>
             (case transcribe env audioPath (req_language request) s of
                (Inr text', s') \<Rightarrow>
                  (reply ((Response_init ''transcription'')
                            \<lparr>success := Some True, text := Some text'\<rparr>) s',
                   Continue)
              | (Inl e, s') \<Rightarrow>
                  (reply ((Response_init ''transcription'')
                            \<lparr>success := Some False, error := Some (localizedDescription e)\<rparr>) s',
                   Continue)))
      else if req_type request = ''unload'' then
        (reply ((Response_init ''unloaded'')\<lparr>success := Some True\<rparr>) (unloadModel s), Continue)
      else if req_type request = ''health'' then
        (let loaded = isModelLoaded s
         in (reply ((Response_init ''health'')\<lparr>model_loaded := Some loaded\<rparr>) s, Continue))
      else if req_type request = ''shutdown'' then
        (let s1 = reply ((Response_init ''shutdown_ack'')\<lparr>success := Some True\<rparr>) s;
             s2 = log ''Shutdown requested, exiting'' s1
         in (s2, Exit 0))
      else
        (reply ((Response_init ''error'')
                  \<lparr>success := Some False,
                   error := Some (''Unknown command: '' @ req_type request)\<rparr>) s,
         Continue))"

text \<open>The body of the \<^verbatim>\<open>while\<close> loop for one line that \<^verbatim>\<open>readLine\<close> returned.\<close>

definition loopBody ::
  "('kit, 'world) Collaborators \<Rightarrow> string \<Rightarrow> ('kit, 'world) Sidecar
     \<Rightarrow> ('kit, 'world) Sidecar \<times> control" where
  "loopBody env line s =
     (if line = [] then (s, Continue)
      else case JSONDecoder_decode env line of
             None \<Rightarrow>
               (reply ((Response_init ''error'')
                         \<lparr>success := Some False, error := Some ''Invalid JSON request''\<rparr>) s,
                Continue)
           | Some request \<Rightarrow> switch env request s)"

text \<open>
  \<^verbatim>\<open>while let line = readLine(strippingNewline: true)\<close> over the lines standard input
  still holds. The result is the state the loop is left in, whether it was left by
  \<^verbatim>\<open>exit\<close> or because \<^verbatim>\<open>readLine\<close> returned \<^verbatim>\<open>nil\<close>, and the lines that were never read.
\<close>

fun mainLoop ::
  "('kit, 'world) Collaborators \<Rightarrow> string list \<Rightarrow> ('kit, 'world) Sidecar
     \<Rightarrow> ('kit, 'world) Sidecar \<times> control \<times> string list" where
  "mainLoop env [] s = (s, Continue, [])"
| "mainLoop env (line # rest) s =
     (case loopBody env line s of
        (s', Exit code) \<Rightarrow> (s', Exit code, rest)
      | (s', Continue) \<Rightarrow> mainLoop env rest s')"

text \<open>
  The process as started: nothing loaded, nothing written. The whole program: the banner,
  the loop, and after a loop that ran out of input the last log line and the normal end of
  the top-level code (exit code 0). The result is the final state, the exit code and the
  unread input.
\<close>

definition started :: "'world \<Rightarrow> ('kit, 'world) Sidecar" where
  "started w =
     \<lparr>whisperKit = None, world = w, stdout_buffer = [], stdout = [], stderr = []\<rparr>"

definition main ::
  "('kit, 'world) Collaborators \<Rightarrow> 'world \<Rightarrow> string list
     \<Rightarrow> ('kit, 'world) Sidecar \<times> int \<times> string list" where
  "main env w stdin =
     (case mainLoop env stdin
             (log ''WhisperKit sidecar started, waiting for commands...'' (started w)) of
        (s, Exit code, unread) \<Rightarrow> (s, code, unread)
      | (s, Continue, unread) \<Rightarrow> (log ''stdin closed, exiting'' s, 0, unread))"

subsection \<open>A concrete environment\<close>

text \<open>
  Collaborators to run the definitions on. The world is the list of calls made so far:
  every collaborator that touches the outside appends its call. Two model folders exist,
  two audio files exist (one of two samples and a stray byte, one of three bytes), and the
  decoder knows the lines of the table.
\<close>

datatype testKit = BaseModel | LargeModel

datatype call =
  LoadCall string | ReadCall string | InferCall testKit "Float list" DecodingOptions

definition testRequests :: \<open>(string \<times> Request) list\<close> where
  \<open>testRequests =
     [(''{"type":"health"}'',
       \<lparr>req_type = ''health'', model_path = None, audio_path = None, req_language = None\<rparr>),
      (''{"type":"load","model_path":"/models/base"}'',
       \<lparr>req_type = ''load'', model_path = Some ''/models/base'', audio_path = None,
        req_language = None\<rparr>),
      (''{"type":"load","model_path":"/nowhere"}'',
       \<lparr>req_type = ''load'', model_path = Some ''/nowhere'', audio_path = None,
        req_language = None\<rparr>),
      (''{"type":"load"}'',
       \<lparr>req_type = ''load'', model_path = None, audio_path = None, req_language = None\<rparr>),
      (''{"type":"transcribe","audio_path":"/tmp/audio.raw","language":"dv"}'',
       \<lparr>req_type = ''transcribe'', model_path = None, audio_path = Some ''/tmp/audio.raw'',
        req_language = Some ''dv''\<rparr>),
      (''{"type":"transcribe","audio_path":"/tmp/short.raw","language":"auto"}'',
       \<lparr>req_type = ''transcribe'', model_path = None, audio_path = Some ''/tmp/short.raw'',
        req_language = Some ''auto''\<rparr>),
      (''{"type":"transcribe"}'',
       \<lparr>req_type = ''transcribe'', model_path = None, audio_path = None,
        req_language = None\<rparr>),
      (''{"type":"unload"}'',
       \<lparr>req_type = ''unload'', model_path = None, audio_path = None, req_language = None\<rparr>),
      (''{"type":"shutdown"}'',
       \<lparr>req_type = ''shutdown'', model_path = None, audio_path = None, req_language = None\<rparr>),
      (''{"type":"restart"}'',
       \<lparr>req_type = ''restart'', model_path = None, audio_path = None, req_language = None\<rparr>)]\<close>

definition testEnv :: "(testKit, call list) Collaborators" where
  "testEnv =
     \<lparr>WhisperKit_init = (\<lambda>path w.
        (if path = ''/models/base'' then Inr BaseModel
         else if path = ''/models/large'' then Inr LargeModel
         else Inl (Thrown ''Model folder not found''),
         w @ [LoadCall path])),
      Data_contentsOf = (\<lambda>path w.
        (if path = ''/tmp/audio.raw'' then Inr [0, 0, 128, 63, 0, 0, 0, 64, 7]
         else if path = ''/tmp/short.raw'' then Inr [1, 2, 3]
         else Inl (Thrown ''No such file''),
         w @ [ReadCall path])),
      kit_transcribe = (\<lambda>kit samples options w.
        (if samples = [] then Inr []
         else Inr [TranscriptionResult '' salaam'', TranscriptionResult ''dhuniye  ''],
         w @ [InferCall kit samples options])),
      DecodingOptions_init =
        \<lparr>language = None, skipSpecialTokens = False, withoutTimestamps = False\<rparr>,
      JSONDecoder_decode = map_of testRequests,
      whitespacesAndNewlines = (\<lambda>scalar.
        scalar \<in> set ['' '', [CHR 0x09], [CHR 0x0A], [CHR 0x0D]])\<rparr>"

section \<open>Properties\<close>

subsection \<open>Output primitives\<close>

lemma log_fields [simp]:
  "whisperKit (log m s) = whisperKit s"
  "world (log m s) = world s"
  "stdout (log m s) = stdout s"
  "stdout_buffer (log m s) = stdout_buffer s"
  "stderr (log m s) = stderr s @ [''[whisperkit-sidecar] '' @ m @ [CHR 0x0A]]"
  by (simp_all add: log_def)

lemma reply_fields [simp]:
  "whisperKit (reply r s) = whisperKit s"
  "world (reply r s) = world s"
  "stderr (reply r s) = stderr s"
  "stdout (reply r s) = stdout s @ stdout_buffer s @ [encode r]"
  "stdout_buffer (reply r s) = []"
  by (simp_all add: reply_def fflush_stdout_def print_def)

lemma unloadModel_fields [simp]:
  "whisperKit (unloadModel s) = None"
  "world (unloadModel s) = world s"
  "stdout (unloadModel s) = stdout s"
  "stdout_buffer (unloadModel s) = stdout_buffer s"
  by (simp_all add: unloadModel_def)

subsection \<open>Audio decoding\<close>

text \<open>The loop that fills the zeroed array computes a map over the indices.\<close>

lemma fold_update_upt:
  "k \<le> length xs \<Longrightarrow>
   fold (\<lambda>i samples. samples[i := f i]) [0..<k] xs = map f [0..<k] @ drop k xs"
proof (induction k)
  case 0
  then show ?case by simp
next
  case (Suc k)
  then have "k < length xs" by simp
  with Suc show ?case
    by (simp add: list_update_append upd_conv_take_nth_drop Cons_nth_drop_Suc[symmetric] drop_Suc)
qed

lemma decodeAudio_map:
  "decodeAudio audioData = map (floatBuffer audioData) [0..<length audioData div 4]"
  by (simp add: decodeAudio_def MemoryLayout_Float_size_def fold_update_upt)

lemma floatBuffer_littleEndianBytes: "floatBuffer (littleEndianBytes x @ rest) 0 = x"
  apply (simp add: floatBuffer_def littleEndianBytes_def)
  apply (rule bit_word_eqI)
  apply (auto simp: bit_simps)
  subgoal for n by (cases "n < 24") simp_all
  done

lemma floatBuffer_Suc: "floatBuffer bs (Suc i) = floatBuffer (drop 4 bs) i"
  by (simp add: floatBuffer_def MemoryLayout_Float_size_def add.commute)

lemma length_littleEndianBytes: "length (littleEndianBytes x) = 4"
  by (simp add: littleEndianBytes_def)

lemma length_audioFixture: "length (audioFixture xs) = 4 * length xs"
  by (induction xs) (simp_all add: audioFixture_def length_littleEndianBytes)

lemma decodeAudio_audioFixture:
  "length r < 4 \<Longrightarrow> decodeAudio (audioFixture xs @ r) = xs"
proof (induction xs)
  case Nil
  then show ?case by (simp add: decodeAudio_map audioFixture_def)
next
  case (Cons x xs)
  have len: "length (audioFixture (x # xs) @ r) div 4 = Suc (length xs)"
    using Cons.prems by (simp add: length_audioFixture)
  have len': "length (audioFixture xs @ r) div 4 = length xs"
    using Cons.prems by (simp add: length_audioFixture)
  have layout: "audioFixture (x # xs) @ r = littleEndianBytes x @ (audioFixture xs @ r)"
    by (simp add: audioFixture_def)
  have "decodeAudio (audioFixture (x # xs) @ r)
        = floatBuffer (audioFixture (x # xs) @ r) 0
          # map (\<lambda>i. floatBuffer (audioFixture (x # xs) @ r) (Suc i)) [0..<length xs]"
    unfolding decodeAudio_map len by (simp add: upt_conv_Cons map_Suc_upt[symmetric] del: upt_Suc)
  also have "\<dots> = x # map (floatBuffer (audioFixture xs @ r)) [0..<length xs]"
    unfolding layout
    by (simp add: floatBuffer_littleEndianBytes floatBuffer_Suc length_littleEndianBytes)
  also have "\<dots> = x # xs"
    using Cons.IH[OF Cons.prems] unfolding decodeAudio_map len' by simp
  finally show ?case .
qed

subsection \<open>The engine calls leave standard output alone\<close>

lemma transcribe_stdout [simp]:
  "stdout (snd (transcribe env audioPath language' s)) = stdout s"
  "stdout_buffer (snd (transcribe env audioPath language' s)) = stdout_buffer s"
  by (simp_all add: transcribe_def Let_def split: option.splits prod.splits sum.splits)

lemma loadModel_stdout [simp]:
  "stdout (snd (loadModel env path s)) = stdout s"
  "stdout_buffer (snd (loadModel env path s)) = stdout_buffer s"
  by (simp_all add: loadModel_def Let_def split: prod.splits sum.splits)

lemma switch_transcribe_stdout:
  assumes "req_type request = ''transcribe''" and "audio_path request = Some audioPath"
  shows "stdout (fst (switch env request s))
           = stdout s @ stdout_buffer s
             @ [case fst (transcribe env audioPath (req_language request) s) of
                  Inr text' \<Rightarrow> [(''type'', JString ''transcription''), (''success'', JBool True),
                                (''text'', JString text')]
                | Inl e \<Rightarrow> [(''type'', JString ''transcription''), (''success'', JBool False),
                            (''error'', JString (localizedDescription e))]]"
proof (cases "transcribe env audioPath (req_language request) s")
  case (Pair outcome s')
  have "stdout s' = stdout s" "stdout_buffer s' = stdout_buffer s"
    using transcribe_stdout[of env audioPath "req_language request" s] Pair by simp_all
  with Pair assms show ?thesis
    by (cases outcome)
       (simp_all add: switch_def Response_init_def encode_def encodeIfPresent_def)
qed

lemma transcribe_after_read:
  assumes "whisperKit s = Some kit"
    and "Data_contentsOf env audioPath (world s) = (Inr audioData, w')"
  shows "fst (transcribe env audioPath language' s)
           = (case fst (kit_transcribe env kit (decodeAudio audioData)
                          (decodeOptions env language') w') of
                Inl e \<Rightarrow> Inl e
              | Inr results \<Rightarrow> Inr (resultText env results))"
    and "world (snd (transcribe env audioPath language' s))
           = snd (kit_transcribe env kit (decodeAudio audioData)
                    (decodeOptions env language') w')"
    and "whisperKit (snd (transcribe env audioPath language' s)) = Some kit"
  using assms
  by (simp_all add: transcribe_def Let_def split: prod.splits sum.splits)

subsection \<open>Transcribing with no model\<close>

text \<open>
  Claim C1, as amended. A \<^verbatim>\<open>transcribe\<close> that meets the state Unloaded fails with the
  engine's own error, whose description is "No model loaded", and returns the state it was
  given: the world in it is the same, whatever the collaborators would have done to it, so
  neither the file read nor the inference was called, and nothing was logged. In the loop
  every request of type \<^verbatim>\<open>transcribe\<close> that meets the state Unloaded makes the loop write
  and flush one object of type \<^verbatim>\<open>transcription\<close> with \<^verbatim>\<open>success\<close> false, go on, and leave
  the engine Unloaded, the world and the log untouched. When the request carries an
  \<^verbatim>\<open>audio_path\<close> the engine is called and the object carries its "No model loaded"; when it
  does not, the guard of the \<^verbatim>\<open>transcribe\<close> case answers "Missing audio_path" and the
  engine is not called.
\<close>

theorem transcribe_while_unloaded:
  assumes "whisperKit s = None"
  shows "transcribe env audioPath language' s
           = (Inl (NSError ''WhisperKitSidecar'' 1 ''No model loaded''), s)
       \<and> (req_type request = ''transcribe'' \<and> audio_path request = Some audioPath \<longrightarrow>
            switch env request s
              = (reply \<lparr>type = ''transcription'', success = Some False, text = None,
                         error = Some ''No model loaded'', model_loaded = None\<rparr> s, Continue)
            \<and> stdout (fst (switch env request s))
                = stdout s @ stdout_buffer s
                  @ [[(''type'', JString ''transcription''), (''success'', JBool False),
                      (''error'', JString ''No model loaded'')]])
       \<and> (req_type request = ''transcribe'' \<and> audio_path request = None \<longrightarrow>
            stdout (fst (switch env request s))
              = stdout s @ stdout_buffer s
                @ [[(''type'', JString ''transcription''), (''success'', JBool False),
                    (''error'', JString ''Missing audio_path'')]])
       \<and> (req_type request = ''transcribe'' \<longrightarrow>
            snd (switch env request s) = Continue
            \<and> stdout_buffer (fst (switch env request s)) = []
            \<and> whisperKit (fst (switch env request s)) = None
            \<and> world (fst (switch env request s)) = world s
            \<and> stderr (fst (switch env request s)) = stderr s)"
proof -
  have engine: "transcribe env p l s = (Inl (NSError ''WhisperKitSidecar'' 1 ''No model loaded''), s)"
    for p l
    using assms by (simp add: transcribe_def)
  have loop: ?thesis if "req_type request = ''transcribe''"
  proof (cases "audio_path request")
    case None
    with that engine assms show ?thesis
      by (simp add: switch_def Response_init_def encode_def encodeIfPresent_def)
  next
    case (Some p)
    with that engine assms show ?thesis
      by (simp add: switch_def Response_init_def encode_def encodeIfPresent_def)
  qed
  show ?thesis
  proof (cases "req_type request = ''transcribe''")
    case True
    then show ?thesis by (rule loop)
  next
    case False
    with engine show ?thesis by simp
  qed
qed

theorem transcribe_while_unloaded_witness:
  "whisperKit (started [] :: (testKit, call list) Sidecar) = None
   \<and> transcribe testEnv ''/tmp/audio.raw'' (Some ''dv'') (started [])
       = (Inl (NSError ''WhisperKitSidecar'' 1 ''No model loaded''), started [])
   \<and> stdout (fst (switch testEnv
         \<lparr>req_type = ''transcribe'', model_path = None, audio_path = Some ''/tmp/audio.raw'',
          req_language = Some ''dv''\<rparr> (started [])))
       = [[(''type'', JString ''transcription''), (''success'', JBool False),
           (''error'', JString ''No model loaded'')]]
   \<and> stdout_buffer (fst (switch testEnv
         \<lparr>req_type = ''transcribe'', model_path = None, audio_path = Some ''/tmp/audio.raw'',
          req_language = Some ''dv''\<rparr> (started []))) = []
   \<and> whisperKit (fst (switch testEnv
         \<lparr>req_type = ''transcribe'', model_path = None, audio_path = Some ''/tmp/audio.raw'',
          req_language = Some ''dv''\<rparr> (started []))) = None
   \<and> world (fst (switch testEnv
         \<lparr>req_type = ''transcribe'', model_path = None, audio_path = Some ''/tmp/audio.raw'',
          req_language = Some ''dv''\<rparr> (started []))) = []
   \<and> stderr (fst (switch testEnv
         \<lparr>req_type = ''transcribe'', model_path = None, audio_path = Some ''/tmp/audio.raw'',
          req_language = Some ''dv''\<rparr> (started []))) = []"
proof -
  let ?s = "started [] :: (testKit, call list) Sidecar"
  have fresh: "whisperKit ?s = None" "stdout ?s = []" "stdout_buffer ?s = []" "world ?s = []"
      "stderr ?s = []"
    by (simp_all add: started_def)
  note t = transcribe_while_unloaded [OF fresh(1), where env = testEnv
      and audioPath = "''/tmp/audio.raw''" and language' = "Some ''dv''"
      and request = "\<lparr>req_type = ''transcribe'', model_path = None,
          audio_path = Some ''/tmp/audio.raw'', req_language = Some ''dv''\<rparr>"]
  from t show ?thesis
    by (simp add: fresh encode_def encodeIfPresent_def)
qed

text \<open>
  Claim C1 as written speaks of every \<^verbatim>\<open>transcribe\<close> command: the command without an
  \<^verbatim>\<open>audio_path\<close>, received while nothing is loaded, is answered "Missing audio_path", not
  "No model loaded".
\<close>

theorem transcribe_without_audio_path_counterexample:
  "req_type \<lparr>req_type = ''transcribe'', model_path = None, audio_path = None,
             req_language = None\<rparr> = ''transcribe''
   \<and> whisperKit (started [] :: (testKit, call list) Sidecar) = None
   \<and> stdout (fst (switch testEnv
         \<lparr>req_type = ''transcribe'', model_path = None, audio_path = None,
          req_language = None\<rparr> (started [])))
       = [[(''type'', JString ''transcription''), (''success'', JBool False),
           (''error'', JString ''Missing audio_path'')]]
   \<and> stdout (fst (switch testEnv
         \<lparr>req_type = ''transcribe'', model_path = None, audio_path = None,
          req_language = None\<rparr> (started [])))
       \<noteq> [[(''type'', JString ''transcription''), (''success'', JBool False),
           (''error'', JString ''No model loaded'')]]"
  by (simp add: switch_def Response_init_def reply_def print_def fflush_stdout_def encode_def
      encodeIfPresent_def started_def)

subsection \<open>Trailing bytes of an audio file\<close>

text \<open>
  Claim C2. Decoding yields exactly \<open>length audioData div 4\<close> samples. A file made of
  complete little-endian samples followed by at most three stray bytes decodes to
  exactly those samples, and a transcription of such a file goes on to the inference
  call with them: its outcome is the outcome of that call, an error only if the
  inference throws.
\<close>

theorem decode_drops_trailing_bytes:
  "length (decodeAudio audioData) = length audioData div 4
   \<and> (length stray \<le> 3 \<longrightarrow> decodeAudio (audioFixture samples @ stray) = samples)
   \<and> (length stray \<le> 3 \<and> whisperKit s = Some kit
        \<and> Data_contentsOf env audioPath (world s) = (Inr (audioFixture samples @ stray), w')
      \<longrightarrow> fst (transcribe env audioPath language' s)
            = (case fst (kit_transcribe env kit samples (decodeOptions env language') w') of
                 Inl e \<Rightarrow> Inl e
               | Inr results \<Rightarrow> Inr (resultText env results))
          \<and> world (snd (transcribe env audioPath language' s))
            = snd (kit_transcribe env kit samples (decodeOptions env language') w'))"
proof -
  have whole: "decodeAudio (audioFixture samples @ stray) = samples" if "length stray \<le> 3"
    using that by (simp add: decodeAudio_audioFixture)
  show ?thesis
    using whole transcribe_after_read(1,2)[of s kit env audioPath "audioFixture samples @ stray" w' language']
    by (simp add: decodeAudio_map)
qed

theorem decode_drops_trailing_bytes_witness:
  "length [7 :: byte] \<le> 3
   \<and> whisperKit ((started [])\<lparr>whisperKit := Some BaseModel\<rparr>) = Some BaseModel
   \<and> Data_contentsOf testEnv ''/tmp/audio.raw''
         (world ((started [])\<lparr>whisperKit := Some BaseModel\<rparr>))
       = (Inr (audioFixture [0x3F800000, 0x40000000] @ [7]), [ReadCall ''/tmp/audio.raw''])
   \<and> length (decodeAudio [0, 0, 128, 63, 0, 0, 0, 64, 7]) = 2
   \<and> decodeAudio (audioFixture [0x3F800000, 0x40000000] @ [7]) = [0x3F800000, 0x40000000]
   \<and> fst (transcribe testEnv ''/tmp/audio.raw'' (Some ''dv'')
             ((started [])\<lparr>whisperKit := Some BaseModel\<rparr>))
       = Inr ''salaam dhuniye''"
proof -
  let ?s = "(started [])\<lparr>whisperKit := Some BaseModel\<rparr> :: (testKit, call list) Sidecar"
  have bytes: "audioFixture [0x3F800000, 0x40000000] @ [7] = [0, 0, 128, 63, 0, 0, 0, 64, 7]"
    by code_simp
  have read: "Data_contentsOf testEnv ''/tmp/audio.raw'' (world ?s)
                = (Inr (audioFixture [0x3F800000, 0x40000000] @ [7]), [ReadCall ''/tmp/audio.raw''])"
    unfolding bytes by (simp add: testEnv_def started_def)
  have infer: "fst (kit_transcribe testEnv BaseModel [0x3F800000, 0x40000000]
                      (decodeOptions testEnv (Some ''dv'')) [ReadCall ''/tmp/audio.raw''])
                 = Inr [TranscriptionResult '' salaam'', TranscriptionResult ''dhuniye  '']"
    by (simp add: testEnv_def)
  have said: "resultText testEnv [TranscriptionResult '' salaam'', TranscriptionResult ''dhuniye  '']
               = ''salaam dhuniye''"
    by code_simp
  have loaded: "whisperKit ?s = Some BaseModel"
    by (simp add: started_def)
  show ?thesis
    using decode_drops_trailing_bytes [where audioData = "[0, 0, 128, 63, 0, 0, 0, 64, 7]"
        and stray = "[7]" and samples = "[0x3F800000, 0x40000000]" and s = ?s and kit = BaseModel
        and env = testEnv and audioPath = "''/tmp/audio.raw''"
        and w' = "[ReadCall ''/tmp/audio.raw'']" and language' = "Some ''dv''"]
      read loaded
    by (simp add: infer said)
qed

subsection \<open>A load that fails\<close>

text \<open>
  Claim C3. When the model loader throws, \<^verbatim>\<open>loadModel\<close> rethrows the same error and the
  engine's handle is what it was before, loaded or not; the loop answers with one reply of
  type \<^verbatim>\<open>loaded\<close>, \<^verbatim>\<open>success\<close> false and the description of that error, and goes on.
\<close>

theorem failed_load_keeps_state:
  assumes "WhisperKit_init env path (world s) = (Inl e, w)"
  shows "fst (loadModel env path s) = Inl e
       \<and> whisperKit (snd (loadModel env path s)) = whisperKit s
       \<and> (req_type request = ''load'' \<and> model_path request = Some path \<longrightarrow>
            snd (switch env request s) = Continue
            \<and> whisperKit (fst (switch env request s)) = whisperKit s
            \<and> stdout (fst (switch env request s))
                = stdout s @ stdout_buffer s
                  @ [encode \<lparr>type = ''loaded'', success = Some False, text = None,
                             error = Some (localizedDescription e), model_loaded = None\<rparr>])"
  using assms
  by (simp add: loadModel_def switch_def Response_init_def)

theorem failed_load_keeps_state_witness:
  "WhisperKit_init testEnv ''/nowhere'' (world ((started [])\<lparr>whisperKit := Some BaseModel\<rparr>))
     = (Inl (Thrown ''Model folder not found''), [LoadCall ''/nowhere''])
   \<and> fst (loadModel testEnv ''/nowhere'' ((started [])\<lparr>whisperKit := Some BaseModel\<rparr>))
       = Inl (Thrown ''Model folder not found'')
   \<and> whisperKit (fst (switch testEnv
          \<lparr>req_type = ''load'', model_path = Some ''/nowhere'', audio_path = None,
           req_language = None\<rparr> ((started [])\<lparr>whisperKit := Some BaseModel\<rparr>)))
       = Some BaseModel
   \<and> stdout (fst (switch testEnv
          \<lparr>req_type = ''load'', model_path = Some ''/nowhere'', audio_path = None,
           req_language = None\<rparr> ((started [])\<lparr>whisperKit := Some BaseModel\<rparr>)))
       = [[(''type'', JString ''loaded''), (''success'', JBool False),
           (''error'', JString ''Model folder not found'')]]"
proof -
  let ?s = "(started [])\<lparr>whisperKit := Some BaseModel\<rparr> :: (testKit, call list) Sidecar"
  have thrown: "WhisperKit_init testEnv ''/nowhere'' (world ?s)
                  = (Inl (Thrown ''Model folder not found''), [LoadCall ''/nowhere''])"
    by (simp add: testEnv_def started_def)
  show ?thesis
    using failed_load_keeps_state [OF thrown,
        where request = "\<lparr>req_type = ''load'', model_path = Some ''/nowhere'',
          audio_path = None, req_language = None\<rparr>"] thrown
    by (simp add: started_def encode_def encodeIfPresent_def)
qed

subsection \<open>Unloading\<close>

text \<open>
  Claim C4. \<^verbatim>\<open>unloadModel\<close> leaves the engine Unloaded from any state, so doing it again
  changes nothing in the engine state. An \<^verbatim>\<open>unload\<close> request is always answered by the
  reply of type \<^verbatim>\<open>unloaded\<close> with \<^verbatim>\<open>success\<close> true, and two \<^verbatim>\<open>unload\<close> lines in a row
  produce that reply twice and leave the engine Unloaded after each.
\<close>

theorem unload_idempotent:
  "whisperKit (unloadModel s) = None
   \<and> whisperKit (unloadModel (unloadModel s)) = whisperKit (unloadModel s)
   \<and> (whisperKit s = None \<longrightarrow> whisperKit (unloadModel s) = whisperKit s)
   \<and> world (unloadModel s) = world s
   \<and> (req_type request = ''unload'' \<longrightarrow>
        switch env request s
          = (reply \<lparr>type = ''unloaded'', success = Some True, text = None, error = None,
                     model_loaded = None\<rparr> (unloadModel s), Continue)
        \<and> whisperKit (fst (switch env request s)) = None
        \<and> world (fst (switch env request s)) = world s
        \<and> stdout (fst (switch env request s))
            = stdout s @ stdout_buffer s
              @ [[(''type'', JString ''unloaded''), (''success'', JBool True)]])
   \<and> (line1 \<noteq> [] \<and> JSONDecoder_decode env line1 = Some request1
        \<and> req_type request1 = ''unload''
        \<and> line2 \<noteq> [] \<and> JSONDecoder_decode env line2 = Some request2
        \<and> req_type request2 = ''unload'' \<longrightarrow>
        fst (loopBody env line2 (fst (loopBody env line1 s)))
          = reply \<lparr>type = ''unloaded'', success = Some True, text = None, error = None,
                     model_loaded = None\<rparr>
              (unloadModel
                 (reply \<lparr>type = ''unloaded'', success = Some True, text = None, error = None,
                           model_loaded = None\<rparr> (unloadModel s)))
        \<and> mainLoop env (line1 # line2 # rest) s
            = mainLoop env rest (fst (loopBody env line2 (fst (loopBody env line1 s))))
        \<and> whisperKit (fst (loopBody env line1 s)) = None
        \<and> whisperKit (fst (loopBody env line2 (fst (loopBody env line1 s)))) = None
        \<and> stdout (fst (loopBody env line2 (fst (loopBody env line1 s))))
            = stdout s @ stdout_buffer s
              @ [[(''type'', JString ''unloaded''), (''success'', JBool True)],
                 [(''type'', JString ''unloaded''), (''success'', JBool True)]])"
  by (simp add: unloadModel_def switch_def loopBody_def Response_init_def encode_def
      encodeIfPresent_def)

theorem unload_idempotent_witness:
  \<open>JSONDecoder_decode testEnv ''{"type":"unload"}''
     = Some \<lparr>req_type = ''unload'', model_path = None, audio_path = None, req_language = None\<rparr>
   \<and> whisperKit (fst (loopBody testEnv ''{"type":"unload"}''
                        ((started [])\<lparr>whisperKit := Some BaseModel\<rparr>))) = None
   \<and> whisperKit (fst (loopBody testEnv ''{"type":"unload"}''
         (fst (loopBody testEnv ''{"type":"unload"}''
                 ((started [])\<lparr>whisperKit := Some BaseModel\<rparr>))))) = None
   \<and> stdout (fst (loopBody testEnv ''{"type":"unload"}''
         (fst (loopBody testEnv ''{"type":"unload"}''
                 ((started [])\<lparr>whisperKit := Some BaseModel\<rparr>)))))
       = [[(''type'', JString ''unloaded''), (''success'', JBool True)],
          [(''type'', JString ''unloaded''), (''success'', JBool True)]]\<close>
proof -
  let ?s = \<open>(started [])\<lparr>whisperKit := Some BaseModel\<rparr> :: (testKit, call list) Sidecar\<close>
  let ?request = \<open>\<lparr>req_type = ''unload'', model_path = None, audio_path = None,
                    req_language = None\<rparr>\<close>
  let ?line = \<open>''{"type":"unload"}''\<close>
  have decoded: \<open>JSONDecoder_decode testEnv ?line = Some ?request\<close>
    by (simp add: testEnv_def testRequests_def)
  have twice:
    \<open>whisperKit (fst (loopBody testEnv ?line ?s)) = None
     \<and> whisperKit (fst (loopBody testEnv ?line (fst (loopBody testEnv ?line ?s)))) = None
     \<and> stdout (fst (loopBody testEnv ?line (fst (loopBody testEnv ?line ?s))))
         = stdout ?s @ stdout_buffer ?s
           @ [[(''type'', JString ''unloaded''), (''success'', JBool True)],
              [(''type'', JString ''unloaded''), (''success'', JBool True)]]\<close>
    using unload_idempotent [where env = testEnv and s = ?s and request = ?request
        and ?line1.0 = ?line and ?line2.0 = ?line
        and ?request1.0 = ?request and ?request2.0 = ?request and rest = \<open>[]\<close>] decoded
    by (simp add: encode_def encodeIfPresent_def)
  have before: \<open>stdout ?s = []\<close> \<open>stdout_buffer ?s = []\<close>
    by (simp_all add: started_def)
  from twice decoded show ?thesis
    unfolding before by simp
qed

subsection \<open>Lines that are not commands\<close>

text \<open>
  Claim C5. A non-empty line that the decoder rejects, or that decodes to a request
  whose type is none of the five known ones, gets exactly one reply, of type \<^verbatim>\<open>error\<close>
  with \<^verbatim>\<open>success\<close> false: the message is "Invalid JSON request" for a rejected line and
  names the type for an unknown one (which the decoder accepted: the error is raised by
  the dispatch). The engine and the world are not touched and the loop goes on with the
  next line.
\<close>

theorem bad_line_gets_error_reply:
  assumes "line \<noteq> []"
    and "JSONDecoder_decode env line = None
         \<or> (\<exists>request. JSONDecoder_decode env line = Some request
               \<and> req_type request
                    \<notin> {''load'', ''transcribe'', ''unload'', ''health'', ''shutdown''})"
  shows "\<exists>message.
           loopBody env line s
             = (reply \<lparr>type = ''error'', success = Some False, text = None,
                        error = Some message, model_loaded = None\<rparr> s, Continue)
           \<and> (JSONDecoder_decode env line = None \<longrightarrow> message = ''Invalid JSON request'')
           \<and> (\<forall>request. JSONDecoder_decode env line = Some request \<longrightarrow>
                  message = ''Unknown command: '' @ req_type request)
           \<and> mainLoop env (line # rest) s
               = mainLoop env rest
                   (reply \<lparr>type = ''error'', success = Some False, text = None,
                           error = Some message, model_loaded = None\<rparr> s)
           \<and> whisperKit (fst (loopBody env line s)) = whisperKit s
           \<and> world (fst (loopBody env line s)) = world s
           \<and> stdout (fst (loopBody env line s))
               = stdout s @ stdout_buffer s
                 @ [[(''type'', JString ''error''), (''success'', JBool False),
                     (''error'', JString message)]]"
  using assms
  by (auto simp: loopBody_def switch_def Response_init_def encode_def encodeIfPresent_def)

theorem bad_line_gets_error_reply_witness:
  \<open>''not json'' \<noteq> [] \<and> JSONDecoder_decode testEnv ''not json'' = None
   \<and> loopBody testEnv ''not json'' (started [])
       = (reply \<lparr>type = ''error'', success = Some False, text = None,
                  error = Some ''Invalid JSON request'', model_loaded = None\<rparr> (started []),
          Continue)
   \<and> stdout (fst (loopBody testEnv ''not json'' (started [])))
       = [[(''type'', JString ''error''), (''success'', JBool False),
           (''error'', JString ''Invalid JSON request'')]]
   \<and> mainLoop testEnv [''not json'', ''{"type":"health"}''] (started [])
       = mainLoop testEnv [''{"type":"health"}'']
           (reply \<lparr>type = ''error'', success = Some False, text = None,
                    error = Some ''Invalid JSON request'', model_loaded = None\<rparr> (started []))\<close>
proof -
  have rejected: \<open>JSONDecoder_decode testEnv ''not json'' = None\<close>
    by (simp add: testEnv_def testRequests_def)
  have nonempty: \<open>''not json'' \<noteq> []\<close>
    by simp
  show ?thesis
    using bad_line_gets_error_reply [OF nonempty disjI1 [OF rejected],
        where s = \<open>started [] :: (testKit, call list) Sidecar\<close>
          and rest = \<open>[''{"type":"health"}'']\<close>] rejected
    by (auto simp: started_def)
qed

subsection \<open>Commands without their required field\<close>

text \<open>
  Claim C7. A \<^verbatim>\<open>load\<close> without \<^verbatim>\<open>model_path\<close> makes the loop write and flush one object of
  type \<^verbatim>\<open>loaded\<close>, a \<^verbatim>\<open>transcribe\<close> without \<^verbatim>\<open>audio_path\<close> one of type \<^verbatim>\<open>transcription\<close>,
  each with \<^verbatim>\<open>success\<close> false and an \<^verbatim>\<open>error\<close> naming the missing field, not an object of
  type \<^verbatim>\<open>error\<close>. The engine is not called: its state, the world and the log are
  unchanged, and the loop goes on with the next line.
\<close>

theorem missing_field_reply:
  "(req_type request = ''load'' \<and> model_path request = None \<longrightarrow>
      switch env request s
        = (reply \<lparr>type = ''loaded'', success = Some False, text = None,
                   error = Some ''Missing model_path'', model_loaded = None\<rparr> s, Continue)
      \<and> stdout (fst (switch env request s))
          = stdout s @ stdout_buffer s
            @ [[(''type'', JString ''loaded''), (''success'', JBool False),
                (''error'', JString ''Missing model_path'')]])
   \<and> (req_type request = ''transcribe'' \<and> audio_path request = None \<longrightarrow>
      switch env request s
        = (reply \<lparr>type = ''transcription'', success = Some False, text = None,
                   error = Some ''Missing audio_path'', model_loaded = None\<rparr> s, Continue)
      \<and> stdout (fst (switch env request s))
          = stdout s @ stdout_buffer s
            @ [[(''type'', JString ''transcription''), (''success'', JBool False),
                (''error'', JString ''Missing audio_path'')]])
   \<and> ((req_type request = ''load'' \<and> model_path request = None
        \<or> req_type request = ''transcribe'' \<and> audio_path request = None) \<longrightarrow>
      snd (switch env request s) = Continue
      \<and> stdout_buffer (fst (switch env request s)) = []
      \<and> whisperKit (fst (switch env request s)) = whisperKit s
      \<and> world (fst (switch env request s)) = world s
      \<and> stderr (fst (switch env request s)) = stderr s
      \<and> (line \<noteq> [] \<and> JSONDecoder_decode env line = Some request \<longrightarrow>
           loopBody env line s = switch env request s
           \<and> mainLoop env (line # rest) s = mainLoop env rest (fst (switch env request s))))"
proof -
  have load: "switch env request s
        = (reply \<lparr>type = ''loaded'', success = Some False, text = None,
                   error = Some ''Missing model_path'', model_loaded = None\<rparr> s, Continue)"
    if "req_type request = ''load''" and "model_path request = None"
    using that by (simp add: switch_def Response_init_def)
  have heard: "switch env request s
        = (reply \<lparr>type = ''transcription'', success = Some False, text = None,
                   error = Some ''Missing audio_path'', model_loaded = None\<rparr> s, Continue)"
    if "req_type request = ''transcribe''" and "audio_path request = None"
    using that by (simp add: switch_def Response_init_def)
  have on: "loopBody env line s = switch env request s
      \<and> mainLoop env (line # rest) s = mainLoop env rest (fst (switch env request s))"
    if nonempty: "line \<noteq> []" and decoded: "JSONDecoder_decode env line = Some request"
      and goes_on: "snd (switch env request s) = Continue"
  proof -
    have body: "loopBody env line s = switch env request s"
      using nonempty decoded by (simp add: loopBody_def)
    obtain s' where "switch env request s = (s', Continue)"
      using goes_on by (cases "switch env request s") simp
    with body show ?thesis
      by simp
  qed
  show ?thesis
    using load heard on
    by (auto simp: encode_def encodeIfPresent_def)
qed

theorem missing_field_reply_witness:
  \<open>JSONDecoder_decode testEnv ''{"type":"load"}''
     = Some \<lparr>req_type = ''load'', model_path = None, audio_path = None, req_language = None\<rparr>
   \<and> stdout (fst (loopBody testEnv ''{"type":"load"}'' (started [])))
       = [[(''type'', JString ''loaded''), (''success'', JBool False),
           (''error'', JString ''Missing model_path'')]]
   \<and> world (fst (loopBody testEnv ''{"type":"load"}'' (started []))) = []
   \<and> JSONDecoder_decode testEnv ''{"type":"transcribe"}''
       = Some \<lparr>req_type = ''transcribe'', model_path = None, audio_path = None,
               req_language = None\<rparr>
   \<and> stdout (fst (loopBody testEnv ''{"type":"transcribe"}''
                    ((started [])\<lparr>whisperKit := Some BaseModel\<rparr>)))
       = [[(''type'', JString ''transcription''), (''success'', JBool False),
           (''error'', JString ''Missing audio_path'')]]
   \<and> whisperKit (fst (loopBody testEnv ''{"type":"transcribe"}''
                        ((started [])\<lparr>whisperKit := Some BaseModel\<rparr>))) = Some BaseModel
   \<and> world (fst (loopBody testEnv ''{"type":"transcribe"}''
                   ((started [])\<lparr>whisperKit := Some BaseModel\<rparr>))) = []\<close>
proof -
  let ?s = \<open>started [] :: (testKit, call list) Sidecar\<close>
  let ?k = \<open>(started [])\<lparr>whisperKit := Some BaseModel\<rparr> :: (testKit, call list) Sidecar\<close>
  let ?load = \<open>\<lparr>req_type = ''load'', model_path = None, audio_path = None,
                 req_language = None\<rparr>\<close>
  let ?heard = \<open>\<lparr>req_type = ''transcribe'', model_path = None, audio_path = None,
                  req_language = None\<rparr>\<close>
  have decoded: \<open>JSONDecoder_decode testEnv ''{"type":"load"}'' = Some ?load\<close>
      \<open>JSONDecoder_decode testEnv ''{"type":"transcribe"}'' = Some ?heard\<close>
    by (simp_all add: testEnv_def testRequests_def)
  have fresh: \<open>stdout ?s = []\<close> \<open>stdout_buffer ?s = []\<close> \<open>world ?s = []\<close>
      \<open>stdout ?k = []\<close> \<open>stdout_buffer ?k = []\<close> \<open>world ?k = []\<close>
      \<open>whisperKit ?k = Some BaseModel\<close>
    by (simp_all add: started_def)
  have first:
    \<open>stdout (fst (loopBody testEnv ''{"type":"load"}'' ?s))
       = stdout ?s @ stdout_buffer ?s
         @ [[(''type'', JString ''loaded''), (''success'', JBool False),
             (''error'', JString ''Missing model_path'')]]\<close>
    \<open>world (fst (loopBody testEnv ''{"type":"load"}'' ?s)) = world ?s\<close>
    using missing_field_reply [where env = testEnv and s = ?s and request = ?load
        and line = \<open>''{"type":"load"}''\<close> and rest = \<open>[]\<close>] decoded(1)
    by (simp_all add: encode_def encodeIfPresent_def)
  have second:
    \<open>stdout (fst (loopBody testEnv ''{"type":"transcribe"}'' ?k))
       = stdout ?k @ stdout_buffer ?k
         @ [[(''type'', JString ''transcription''), (''success'', JBool False),
             (''error'', JString ''Missing audio_path'')]]\<close>
    \<open>world (fst (loopBody testEnv ''{"type":"transcribe"}'' ?k)) = world ?k\<close>
    \<open>whisperKit (fst (loopBody testEnv ''{"type":"transcribe"}'' ?k)) = whisperKit ?k\<close>
    using missing_field_reply [where env = testEnv and s = ?k and request = ?heard
        and line = \<open>''{"type":"transcribe"}''\<close> and rest = \<open>[]\<close>] decoded(2)
    by (simp_all add: encode_def encodeIfPresent_def)
  from first second decoded show ?thesis
    unfolding fresh by simp
qed

subsection \<open>Audio files shorter than one sample\<close>

text \<open>
  Claim C10. With a model loaded and a readable file of fewer than four bytes, decoding
  gives no samples, and the inference is called all the same, with the empty sample
  list: the outcome and the world are those of that call. If the inference returns, the
  reply is a successful \<^verbatim>\<open>transcription\<close>.
\<close>

theorem short_file_reaches_inference:
  assumes "whisperKit s = Some kit"
    and "Data_contentsOf env audioPath (world s) = (Inr audioData, w')"
    and "length audioData < 4"
  shows "decodeAudio audioData = []
       \<and> fst (transcribe env audioPath language' s)
           = (case fst (kit_transcribe env kit [] (decodeOptions env language') w') of
                Inl e \<Rightarrow> Inl e
              | Inr results \<Rightarrow> Inr (resultText env results))
       \<and> world (snd (transcribe env audioPath language' s))
           = snd (kit_transcribe env kit [] (decodeOptions env language') w')
       \<and> (\<forall>results. fst (kit_transcribe env kit [] (decodeOptions env language') w')
                        = Inr results
              \<and> req_type request = ''transcribe'' \<and> audio_path request = Some audioPath
              \<and> req_language request = language' \<longrightarrow>
              stdout (fst (switch env request s))
                = stdout s @ stdout_buffer s
                  @ [[(''type'', JString ''transcription''), (''success'', JBool True),
                      (''text'', JString (resultText env results))]])"
proof -
  have empty: "decodeAudio audioData = []"
    using assms(3) by (simp add: decodeAudio_map)
  note after = transcribe_after_read[OF assms(1,2), of language', unfolded empty]
  have "stdout (fst (switch env request s))
          = stdout s @ stdout_buffer s
            @ [[(''type'', JString ''transcription''), (''success'', JBool True),
                (''text'', JString (resultText env results))]]"
    if "fst (kit_transcribe env kit [] (decodeOptions env language') w') = Inr results"
      and "req_type request = ''transcribe''" and "audio_path request = Some audioPath"
      and "req_language request = language'"
    for results
    using that after(1) by (simp add: switch_transcribe_stdout)
  with empty after(1,2) show ?thesis by blast
qed

theorem short_file_reaches_inference_witness:
  "length [1, 2, 3 :: byte] < 4
   \<and> decodeAudio [1, 2, 3] = []
   \<and> fst (transcribe testEnv ''/tmp/short.raw'' (Some ''auto'')
             ((started [])\<lparr>whisperKit := Some BaseModel\<rparr>)) = Inr []
   \<and> world (snd (transcribe testEnv ''/tmp/short.raw'' (Some ''auto'')
                    ((started [])\<lparr>whisperKit := Some BaseModel\<rparr>)))
       = [ReadCall ''/tmp/short.raw'',
          InferCall BaseModel []
            \<lparr>language = None, skipSpecialTokens = True, withoutTimestamps = True\<rparr>]
   \<and> stdout (fst (switch testEnv
          \<lparr>req_type = ''transcribe'', model_path = None, audio_path = Some ''/tmp/short.raw'',
           req_language = Some ''auto''\<rparr> ((started [])\<lparr>whisperKit := Some BaseModel\<rparr>)))
       = [[(''type'', JString ''transcription''), (''success'', JBool True),
           (''text'', JString [])]]"
proof -
  let ?s = "(started [])\<lparr>whisperKit := Some BaseModel\<rparr> :: (testKit, call list) Sidecar"
  have loaded: "whisperKit ?s = Some BaseModel"
    by (simp add: started_def)
  have read: "Data_contentsOf testEnv ''/tmp/short.raw'' (world ?s)
                = (Inr [1, 2, 3], [ReadCall ''/tmp/short.raw''])"
    by (simp add: testEnv_def started_def)
  have short: "length [1, 2, 3 :: byte] < 4"
    by simp
  have infer: "kit_transcribe testEnv BaseModel [] (decodeOptions testEnv (Some ''auto''))
                 [ReadCall ''/tmp/short.raw'']
               = (Inr [], [ReadCall ''/tmp/short.raw'',
                   InferCall BaseModel []
                     \<lparr>language = None, skipSpecialTokens = True, withoutTimestamps = True\<rparr>])"
    by (simp add: testEnv_def decodeOptions_def)
  have silent: "resultText testEnv [] = []"
    by (simp add: resultText_def trimmingCharacters_def)
  show ?thesis
    using short_file_reaches_inference [OF loaded read short, where language' = "Some ''auto''"
        and request = "\<lparr>req_type = ''transcribe'', model_path = None,
          audio_path = Some ''/tmp/short.raw'', req_language = Some ''auto''\<rparr>"]
    by (simp add: infer silent started_def)
qed

subsection \<open>The text of a transcription and the language tag\<close>

text \<open>
  Cutting a string into scalars loses nothing, and trimming a list at both ends leaves a
  middle part that neither starts nor ends with a trimmed element.
\<close>

lemma concat_unicodeScalars: "concat (unicodeScalars s) = s"
  by (induction s rule: unicodeScalars.induct) simp_all

lemma joined_Cons: "joined separator (x # xs) = x @ concat (map (\<lambda>y. separator @ y) xs)"
  by (induction separator xs arbitrary: x rule: joined.induct) simp_all

lemma trim_both_ends:
  fixes xs :: "'a list" and P :: "'a \<Rightarrow> bool"
  defines "ys \<equiv> dropWhile P xs"
  defines "mid \<equiv> rev (dropWhile P (rev ys))"
  shows "xs = takeWhile P xs @ mid @ rev (takeWhile P (rev ys))"
    and "\<forall>x\<in>set (takeWhile P xs). P x"
    and "\<forall>x\<in>set (rev (takeWhile P (rev ys))). P x"
    and "mid \<noteq> [] \<longrightarrow> \<not> P (hd mid) \<and> \<not> P (last mid)"
proof -
  have ys: "ys = mid @ rev (takeWhile P (rev ys))"
    unfolding mid_def by (metis rev_append rev_rev_ident takeWhile_dropWhile_id)
  have "xs = takeWhile P xs @ ys"
    by (simp add: ys_def)
  with ys show "xs = takeWhile P xs @ mid @ rev (takeWhile P (rev ys))"
    by simp
  show "\<forall>x\<in>set (takeWhile P xs). P x"
    by (auto dest: set_takeWhileD)
  show "\<forall>x\<in>set (rev (takeWhile P (rev ys))). P x"
    by (auto dest: set_takeWhileD)
  show "mid \<noteq> [] \<longrightarrow> \<not> P (hd mid) \<and> \<not> P (last mid)"
  proof
    assume nonempty: "mid \<noteq> []"
    then have "ys \<noteq> []"
      by (auto simp: mid_def)
    then have "\<not> P (hd ys)"
      unfolding ys_def by (rule hd_dropWhile)
    moreover have "hd ys = hd mid"
      using ys nonempty by (metis hd_append2)
    moreover have "dropWhile P (rev ys) \<noteq> []"
      using nonempty by (simp add: mid_def)
    then have "\<not> P (hd (dropWhile P (rev ys)))"
      by (rule hd_dropWhile)
    then have "\<not> P (last mid)"
      using nonempty by (simp add: mid_def last_rev)
    ultimately show "\<not> P (hd mid) \<and> \<not> P (last mid)"
      by simp
  qed
qed

lemma trimmingCharacters_split:
  "\<exists>lead mid trail.
     unicodeScalars s = lead @ mid @ trail
     \<and> trimmingCharacters characterSet s = concat mid
     \<and> s = concat lead @ trimmingCharacters characterSet s @ concat trail
     \<and> (\<forall>scalar\<in>set lead. characterSet scalar)
     \<and> (\<forall>scalar\<in>set trail. characterSet scalar)
     \<and> (mid \<noteq> [] \<longrightarrow> \<not> characterSet (hd mid) \<and> \<not> characterSet (last mid))"
proof -
  let ?xs = "unicodeScalars s"
  let ?lead = "takeWhile characterSet ?xs"
  let ?mid = "rev (dropWhile characterSet (rev (dropWhile characterSet ?xs)))"
  let ?trail = "rev (takeWhile characterSet (rev (dropWhile characterSet ?xs)))"
  note parts = trim_both_ends [where xs = ?xs and P = characterSet]
  have whole: "?xs = ?lead @ ?mid @ ?trail"
    by (rule parts(1))
  have "concat ?xs = concat (?lead @ ?mid @ ?trail)"
    using whole by (rule arg_cong)
  then have "s = concat ?lead @ trimmingCharacters characterSet s @ concat ?trail"
    by (simp add: concat_unicodeScalars trimmingCharacters_def)
  moreover have "trimmingCharacters characterSet s = concat ?mid"
    by (simp add: trimmingCharacters_def)
  ultimately show ?thesis
    using whole parts(2,3,4) by blast
qed

lemma decodeOptions_fields:
  "language (decodeOptions env language')
     = (if language' = None \<or> language' = Some ''auto'' then language (DecodingOptions_init env)
        else language')"
  "skipSpecialTokens (decodeOptions env language')"
  "withoutTimestamps (decodeOptions env language')"
  by (auto simp: decodeOptions_def Let_def split: option.splits)

text \<open>
  Claim C9. When the file was read and the inference returned its results, the text
  returned is that of the results, joined with one space between neighbours (the first
  text, then each further one preceded by a space) and trimmed: the joined string, cut
  into scalars, is a run of whitespace scalars, the returned text, and a run of whitespace
  scalars, and the returned text neither starts nor ends with a whitespace scalar. The
  options of the inference call have the two flags set, and their language is the
  command's when it is present and not "auto"; otherwise it is left as
  \<^verbatim>\<open>DecodingOptions()\<close> made it, so with a library default of no language the options carry
  a tag exactly when the command has a language other than "auto".
\<close>

theorem transcription_text_and_language:
  assumes "whisperKit s = Some kit"
    and "Data_contentsOf env audioPath (world s) = (Inr audioData, w')"
    and "fst (kit_transcribe env kit (decodeAudio audioData) (decodeOptions env language') w')
           = Inr results"
  shows "fst (transcribe env audioPath language' s) = Inr (resultText env results)
       \<and> resultText env results
           = trimmingCharacters (whitespacesAndNewlines env)
               (joined '' '' (map result_text results))
       \<and> joined '' '' (map result_text results)
           = (case results of
                [] \<Rightarrow> []
              | r # rs \<Rightarrow> result_text r @ concat (map (\<lambda>r'. '' '' @ result_text r') rs))
       \<and> (\<exists>lead mid trail.
             unicodeScalars (joined '' '' (map result_text results)) = lead @ mid @ trail
             \<and> resultText env results = concat mid
             \<and> joined '' '' (map result_text results)
                 = concat lead @ resultText env results @ concat trail
             \<and> (\<forall>scalar\<in>set lead. whitespacesAndNewlines env scalar)
             \<and> (\<forall>scalar\<in>set trail. whitespacesAndNewlines env scalar)
             \<and> (mid \<noteq> [] \<longrightarrow> \<not> whitespacesAndNewlines env (hd mid)
                               \<and> \<not> whitespacesAndNewlines env (last mid)))
       \<and> language (decodeOptions env language')
           = (if language' = None \<or> language' = Some ''auto''
              then language (DecodingOptions_init env) else language')
       \<and> skipSpecialTokens (decodeOptions env language')
       \<and> withoutTimestamps (decodeOptions env language')
       \<and> (language (DecodingOptions_init env) = None \<longrightarrow>
            (\<forall>tag. language (decodeOptions env language') = Some tag
                     \<longleftrightarrow> language' = Some tag \<and> tag \<noteq> ''auto''))"
proof -
  have outcome: "fst (transcribe env audioPath language' s) = Inr (resultText env results)"
    using transcribe_after_read(1) [OF assms(1,2), of language'] assms(3) by simp
  have joined_text: "joined '' '' (map result_text results)
      = (case results of
           [] \<Rightarrow> []
         | r # rs \<Rightarrow> result_text r @ concat (map (\<lambda>r'. '' '' @ result_text r') rs))"
    by (cases results) (simp_all add: joined_Cons comp_def)
  have trimmed: "\<exists>lead mid trail.
      unicodeScalars (joined '' '' (map result_text results)) = lead @ mid @ trail
      \<and> resultText env results = concat mid
      \<and> joined '' '' (map result_text results)
          = concat lead @ resultText env results @ concat trail
      \<and> (\<forall>scalar\<in>set lead. whitespacesAndNewlines env scalar)
      \<and> (\<forall>scalar\<in>set trail. whitespacesAndNewlines env scalar)
      \<and> (mid \<noteq> [] \<longrightarrow> \<not> whitespacesAndNewlines env (hd mid)
                        \<and> \<not> whitespacesAndNewlines env (last mid))"
    unfolding resultText_def by (rule trimmingCharacters_split)
  have tag: "\<forall>tag. language (decodeOptions env language') = Some tag
                 \<longleftrightarrow> language' = Some tag \<and> tag \<noteq> ''auto''"
    if "language (DecodingOptions_init env) = None"
    using that by (auto simp: decodeOptions_fields(1))
  show ?thesis
    using outcome joined_text trimmed tag decodeOptions_fields [of env language']
    by (simp add: resultText_def)
qed

theorem transcription_text_and_language_witness:
  "whisperKit ((started [])\<lparr>whisperKit := Some BaseModel\<rparr> :: (testKit, call list) Sidecar)
     = Some BaseModel
   \<and> Data_contentsOf testEnv ''/tmp/audio.raw''
         (world ((started [])\<lparr>whisperKit := Some BaseModel\<rparr>))
       = (Inr [0, 0, 128, 63, 0, 0, 0, 64, 7], [ReadCall ''/tmp/audio.raw''])
   \<and> fst (kit_transcribe testEnv BaseModel (decodeAudio [0, 0, 128, 63, 0, 0, 0, 64, 7])
             (decodeOptions testEnv (Some ''dv'')) [ReadCall ''/tmp/audio.raw''])
       = Inr [TranscriptionResult '' salaam'', TranscriptionResult ''dhuniye  '']
   \<and> language (DecodingOptions_init testEnv) = None
   \<and> fst (transcribe testEnv ''/tmp/audio.raw'' (Some ''dv'')
             ((started [])\<lparr>whisperKit := Some BaseModel\<rparr>))
       = Inr ''salaam dhuniye''
   \<and> joined '' '' ['' salaam'', ''dhuniye  ''] = '' salaam dhuniye  ''
   \<and> language (decodeOptions testEnv (Some ''dv'')) = Some ''dv''"
proof -
  let ?s = "(started [])\<lparr>whisperKit := Some BaseModel\<rparr> :: (testKit, call list) Sidecar"
  have loaded: "whisperKit ?s = Some BaseModel"
    by (simp add: started_def)
  have read: "Data_contentsOf testEnv ''/tmp/audio.raw'' (world ?s)
                = (Inr [0, 0, 128, 63, 0, 0, 0, 64, 7], [ReadCall ''/tmp/audio.raw''])"
    by (simp add: testEnv_def started_def)
  have samples: "decodeAudio [0, 0, 128, 63, 0, 0, 0, 64, 7] = [0x3F800000, 0x40000000]"
    by code_simp
  have infer: "fst (kit_transcribe testEnv BaseModel (decodeAudio [0, 0, 128, 63, 0, 0, 0, 64, 7])
                      (decodeOptions testEnv (Some ''dv'')) [ReadCall ''/tmp/audio.raw''])
                 = Inr [TranscriptionResult '' salaam'', TranscriptionResult ''dhuniye  '']"
    unfolding samples by (simp add: testEnv_def)
  have said: "resultText testEnv [TranscriptionResult '' salaam'', TranscriptionResult ''dhuniye  '']
                = ''salaam dhuniye''"
    by code_simp
  have default: "language (DecodingOptions_init testEnv) = None"
    by (simp add: testEnv_def)
  have spaced: "joined '' '' ['' salaam'', ''dhuniye  ''] = '' salaam dhuniye  ''"
    by simp
  note t = transcription_text_and_language [OF loaded read infer]
  from t have "fst (transcribe testEnv ''/tmp/audio.raw'' (Some ''dv'') ?s)
                 = Inr ''salaam dhuniye''"
    unfolding said by (rule conjunct1)
  moreover from t default have "language (decodeOptions testEnv (Some ''dv'')) = Some ''dv''"
    by simp
  ultimately show ?thesis
    using loaded read infer default spaced by simp
qed

subsection \<open>One reply for every line\<close>

text \<open>
  What a line does to the engine's handle, to standard output and to the loop: the
  handle changes only in \<^verbatim>\<open>loadModel\<close> and \<^verbatim>\<open>unloadModel\<close>, every non-empty line makes the loop
  write and flush exactly one object, and only a \<^verbatim>\<open>shutdown\<close> request leaves the loop.
\<close>

lemma loadModel_whisperKit:
  "whisperKit (snd (loadModel env path s))
     = (case fst (WhisperKit_init env path (world s)) of
          Inl e \<Rightarrow> whisperKit s
        | Inr kit \<Rightarrow> Some kit)"
  by (simp add: loadModel_def Let_def split: prod.splits sum.splits)

lemma transcribe_whisperKit [simp]:
  "whisperKit (snd (transcribe env audioPath language' s)) = whisperKit s"
  by (simp add: transcribe_def Let_def split: option.splits prod.splits sum.splits)

lemma switch_reply:
  "\<exists>r. stdout (fst (switch env request s)) = stdout s @ stdout_buffer s @ [encode r]
       \<and> stdout_buffer (fst (switch env request s)) = []
       \<and> (req_type request \<noteq> ''health'' \<longrightarrow> model_loaded r = None)"
  (is "\<exists>r. ?written r")
proof -
  consider (load) "req_type request = ''load''"
    | (transcribe) "req_type request = ''transcribe''"
    | (unload) "req_type request = ''unload''"
    | (health) "req_type request = ''health''"
    | (shutdown) "req_type request = ''shutdown''"
    | (unknown) "req_type request
        \<notin> {''load'', ''transcribe'', ''unload'', ''health'', ''shutdown''}"
    by auto
  then show ?thesis
  proof cases
    case load
    show ?thesis
    proof (cases "model_path request")
      case None
      with load show ?thesis
        by (intro exI [of _ "\<lparr>type = ''loaded'', success = Some False, text = None,
              error = Some ''Missing model_path'', model_loaded = None\<rparr>"])
           (simp add: switch_def Response_init_def)
    next
      case (Some modelPath)
      obtain outcome s' where run: "loadModel env modelPath s = (outcome, s')"
        by (cases "loadModel env modelPath s")
      have same: "stdout s' = stdout s" "stdout_buffer s' = stdout_buffer s"
        using loadModel_stdout [of env modelPath s] run by simp_all
      show ?thesis
      proof (cases outcome)
        case (Inl e)
        with load Some run same show ?thesis
          by (intro exI [of _ "\<lparr>type = ''loaded'', success = Some False, text = None,
                error = Some (localizedDescription e), model_loaded = None\<rparr>"])
             (simp add: switch_def Response_init_def)
      next
        case (Inr u)
        with load Some run same show ?thesis
          by (intro exI [of _ "\<lparr>type = ''loaded'', success = Some True, text = None,
                error = None, model_loaded = None\<rparr>"])
             (simp add: switch_def Response_init_def)
      qed
    qed
  next
    case transcribe
    show ?thesis
    proof (cases "audio_path request")
      case None
      with transcribe show ?thesis
        by (intro exI [of _ "\<lparr>type = ''transcription'', success = Some False, text = None,
              error = Some ''Missing audio_path'', model_loaded = None\<rparr>"])
           (simp add: switch_def Response_init_def)
    next
      case (Some audioPath)
      obtain outcome s' where run:
        "transcribe env audioPath (req_language request) s = (outcome, s')"
        by (cases "transcribe env audioPath (req_language request) s")
      have same: "stdout s' = stdout s" "stdout_buffer s' = stdout_buffer s"
        using transcribe_stdout [of env audioPath "req_language request" s] run by simp_all
      show ?thesis
      proof (cases outcome)
        case (Inl e)
        with transcribe Some run same show ?thesis
          by (intro exI [of _ "\<lparr>type = ''transcription'', success = Some False, text = None,
                error = Some (localizedDescription e), model_loaded = None\<rparr>"])
             (simp add: switch_def Response_init_def)
      next
        case (Inr text')
        with transcribe Some run same show ?thesis
          by (intro exI [of _ "\<lparr>type = ''transcription'', success = Some True,
                text = Some text', error = None, model_loaded = None\<rparr>"])
             (simp add: switch_def Response_init_def)
      qed
    qed
  next
    case unload
    then show ?thesis
      by (intro exI [of _ "\<lparr>type = ''unloaded'', success = Some True, text = None,
            error = None, model_loaded = None\<rparr>"])
         (simp add: switch_def Response_init_def)
  next
    case health
    then show ?thesis
      by (intro exI [of _ "\<lparr>type = ''health'', success = None, text = None,
            error = None, model_loaded = Some (isModelLoaded s)\<rparr>"])
         (simp add: switch_def Response_init_def)
  next
    case shutdown
    then show ?thesis
      by (intro exI [of _ "\<lparr>type = ''shutdown_ack'', success = Some True, text = None,
            error = None, model_loaded = None\<rparr>"])
         (simp add: switch_def Response_init_def)
  next
    case unknown
    then show ?thesis
      by (intro exI [of _ "\<lparr>type = ''error'', success = Some False, text = None,
            error = Some (''Unknown command: '' @ req_type request), model_loaded = None\<rparr>"])
         (simp add: switch_def Response_init_def)
  qed
qed

lemma loopBody_reply:
  assumes "line \<noteq> []"
  shows "\<exists>r. stdout (fst (loopBody env line s)) = stdout s @ stdout_buffer s @ [encode r]
           \<and> stdout_buffer (fst (loopBody env line s)) = []
           \<and> (\<not> (\<exists>request. JSONDecoder_decode env line = Some request
                     \<and> req_type request = ''health'') \<longrightarrow> model_loaded r = None)"
proof (cases "JSONDecoder_decode env line")
  case None
  with assms show ?thesis
    by (intro exI [of _ "\<lparr>type = ''error'', success = Some False, text = None,
          error = Some ''Invalid JSON request'', model_loaded = None\<rparr>"])
       (simp add: loopBody_def Response_init_def)
next
  case (Some request)
  with assms switch_reply [of env request s] show ?thesis
    by (auto simp: loopBody_def)
qed

lemma switch_control:
  "snd (switch env request s) = (if req_type request = ''shutdown'' then Exit 0 else Continue)"
  by (simp add: switch_def Let_def split: option.splits prod.splits sum.splits)

lemma loopBody_control:
  "snd (loopBody env line s)
     = (if line \<noteq> [] \<and> (\<exists>request. JSONDecoder_decode env line = Some request
                              \<and> req_type request = ''shutdown'')
        then Exit 0 else Continue)"
  by (auto simp: loopBody_def switch_control split: option.splits)

lemma switch_whisperKit:
  "whisperKit (fst (switch env request s))
     = (if req_type request = ''load'' then
          (case model_path request of
             None \<Rightarrow> whisperKit s
           | Some path \<Rightarrow>
               (case fst (WhisperKit_init env path (world s)) of
                  Inl e \<Rightarrow> whisperKit s
                | Inr kit \<Rightarrow> Some kit))
        else if req_type request = ''unload'' then None
        else whisperKit s)"
proof -
  have load: "whisperKit (fst (switch env request s))
                = whisperKit (snd (loadModel env path s))"
    if "req_type request = ''load''" and "model_path request = Some path" for path
    using that by (simp add: switch_def split: prod.splits sum.splits)
  have heard: "whisperKit (fst (switch env request s)) = whisperKit s"
    if "req_type request = ''transcribe''" and "audio_path request = Some path" for path
  proof (cases "transcribe env path (req_language request) s")
    case (Pair outcome s')
    then have "whisperKit s' = whisperKit s"
      using transcribe_whisperKit [of env path "req_language request" s] by simp
    with Pair that show ?thesis
      by (cases outcome) (simp_all add: switch_def)
  qed
  show ?thesis
  proof (cases "req_type request = ''load''")
    case True
    then show ?thesis
      using load by (cases "model_path request")
        (simp_all add: loadModel_whisperKit, simp add: switch_def)
  next
    case False
    then show ?thesis
      using heard by (cases "audio_path request") (auto simp: switch_def Let_def)
  qed
qed


lemma encode_members:
  "map_of (encode r) ''type'' = Some (JString (type r))"
  "map_of (encode r) ''success'' = map_option JBool (success r)"
  "map_of (encode r) ''text'' = map_option JString (text r)"
  "map_of (encode r) ''error'' = map_option JString (error r)"
  "map_of (encode r) ''model_loaded'' = map_option JBool (model_loaded r)"
  by (simp_all add: encode_def encodeIfPresent_def split: option.splits)

lemma encode_no_null: "JNull \<notin> snd ` set (encode r)"
  by (auto simp: encode_def encodeIfPresent_def split: option.splits)

lemma encode_distinct: "distinct (map fst (encode r))"
  by (simp add: encode_def encodeIfPresent_def split: option.splits)

lemma loopBody_whisperKit_loaded:
  assumes "whisperKit s = None" and "whisperKit (fst (loopBody env line s)) \<noteq> None"
  shows "\<exists>request path kit.
           JSONDecoder_decode env line = Some request \<and> req_type request = ''load''
           \<and> model_path request = Some path
           \<and> fst (WhisperKit_init env path (world s)) = Inr kit"
proof (cases "line = [] \<or> JSONDecoder_decode env line = None")
  case True
  with assms show ?thesis
    by (auto simp: loopBody_def split: if_splits)
next
  case False
  then obtain request where request: "JSONDecoder_decode env line = Some request" and "line \<noteq> []"
    by auto
  then have "whisperKit (fst (switch env request s)) \<noteq> None"
    using assms(2) by (simp add: loopBody_def)
  with assms(1) have "req_type request = ''load''
      \<and> (\<exists>path kit. model_path request = Some path
            \<and> fst (WhisperKit_init env path (world s)) = Inr kit)"
    unfolding switch_whisperKit by (auto split: if_splits option.splits sum.splits)
  with request show ?thesis
    by blast
qed

lemma mainLoop_stays_unloaded:
  assumes "\<forall>path w. \<exists>e. fst (WhisperKit_init env path w) = Inl e"
    and "whisperKit s = None"
  shows "whisperKit (fst (mainLoop env lines s)) = None"
  using assms(2)
proof (induction lines arbitrary: s)
  case Nil
  then show ?case by simp
next
  case (Cons line lines)
  obtain s1 c where step: "loopBody env line s = (s1, c)"
    by (cases "loopBody env line s")
  have unloaded: "whisperKit s1 = None"
  proof (rule ccontr)
    assume "whisperKit s1 \<noteq> None"
    with step have "whisperKit (fst (loopBody env line s)) \<noteq> None"
      by simp
    from loopBody_whisperKit_loaded [OF Cons.prems this] obtain path kit
      where "fst (WhisperKit_init env path (world s)) = Inr kit"
      by blast
    with assms(1) show False
      by (metis sum.distinct(1))
  qed
  show ?case
  proof (cases c)
    case Continue
    with step Cons.IH [OF unloaded] show ?thesis by simp
  next
    case (Exit code)
    with step unloaded show ?thesis by simp
  qed
qed

subsection \<open>The health reply and the members of a reply\<close>

text \<open>
  Claim C8. A \<^verbatim>\<open>health\<close> request is answered by the reply of type \<^verbatim>\<open>health\<close> whose
  \<^verbatim>\<open>model_loaded\<close> says whether the engine holds a model, and whose object has these two
  members only. The engine holds none when the process starts, it holds none at the end
  of any input if the model loader never succeeds, and a line can take it from Unloaded to
  Loaded only by being a \<^verbatim>\<open>load\<close> with a path on which the model loader succeeds. The object of any reply has no null member, no member twice, and a member for
  an optional property exactly when the property is set; and the reply to any non-empty
  line that is not a \<^verbatim>\<open>health\<close> request has no \<^verbatim>\<open>model_loaded\<close> member.
\<close>

theorem health_reply_and_omitted_fields:
  fixes env :: "('kit, 'world) Collaborators"
    and s :: "('kit, 'world) Sidecar"
    and w :: 'world
  shows
  "(req_type request = ''health'' \<longrightarrow>
      switch env request s
        = (reply \<lparr>type = ''health'', success = None, text = None, error = None,
                   model_loaded = Some (whisperKit s \<noteq> None)\<rparr> s, Continue)
      \<and> stdout (fst (switch env request s))
          = stdout s @ stdout_buffer s
            @ [[(''type'', JString ''health''),
                (''model_loaded'', JBool (whisperKit s \<noteq> None))]])
   \<and> whisperKit (started w :: ('kit, 'world) Sidecar) = None
   \<and> ((\<forall>path w'. \<exists>e. fst (WhisperKit_init env path w') = Inl e) \<longrightarrow>
        whisperKit (fst (main env w stdin)) = None)
   \<and> (whisperKit s = None \<and> whisperKit (fst (loopBody env line s)) \<noteq> None \<longrightarrow>
        (\<exists>request path kit.
           JSONDecoder_decode env line = Some request \<and> req_type request = ''load''
           \<and> model_path request = Some path
           \<and> fst (WhisperKit_init env path (world s)) = Inr kit))
   \<and> JNull \<notin> snd ` set (encode r)
   \<and> distinct (map fst (encode r))
   \<and> map_of (encode r) ''type'' = Some (JString (type r))
   \<and> map_of (encode r) ''success'' = map_option JBool (success r)
   \<and> map_of (encode r) ''text'' = map_option JString (text r)
   \<and> map_of (encode r) ''error'' = map_option JString (error r)
   \<and> map_of (encode r) ''model_loaded'' = map_option JBool (model_loaded r)
   \<and> (line \<noteq> []
        \<and> \<not> (\<exists>request. JSONDecoder_decode env line = Some request
                 \<and> req_type request = ''health'') \<longrightarrow>
        (\<exists>r'. stdout (fst (loopBody env line s)) = stdout s @ stdout_buffer s @ [encode r']
            \<and> model_loaded r' = None
            \<and> map_of (encode r') ''model_loaded'' = None))"
proof -
  have health: "switch env request s
        = (reply \<lparr>type = ''health'', success = None, text = None, error = None,
                   model_loaded = Some (whisperKit s \<noteq> None)\<rparr> s, Continue)
      \<and> stdout (fst (switch env request s))
          = stdout s @ stdout_buffer s
            @ [[(''type'', JString ''health''),
                (''model_loaded'', JBool (whisperKit s \<noteq> None))]]"
    if "req_type request = ''health''"
    using that
    by (simp add: switch_def isModelLoaded_def Response_init_def encode_def encodeIfPresent_def)
  have fresh: "whisperKit (started w :: ('kit, 'world) Sidecar) = None"
    by (simp add: started_def)
  have never: "whisperKit (fst (main env w stdin)) = None"
    if "\<forall>path w'. \<exists>e. fst (WhisperKit_init env path w') = Inl e"
  proof -
    let ?s0 = "log ''WhisperKit sidecar started, waiting for commands...'' (started w)
               :: ('kit, 'world) Sidecar"
    obtain s1 c unread where run: "mainLoop env stdin ?s0 = (s1, c, unread)"
      by (cases "mainLoop env stdin ?s0")
    have "whisperKit (fst (mainLoop env stdin ?s0)) = None"
      using that by (rule mainLoop_stays_unloaded) (simp add: started_def)
    with run have "whisperKit s1 = None"
      by simp
    with run show ?thesis
      by (cases c) (simp_all add: main_def)
  qed
  have others: "\<exists>r'. stdout (fst (loopBody env line s)) = stdout s @ stdout_buffer s @ [encode r']
            \<and> model_loaded r' = None
            \<and> map_of (encode r') ''model_loaded'' = None"
    if "line \<noteq> []"
      and "\<not> (\<exists>request. JSONDecoder_decode env line = Some request
                 \<and> req_type request = ''health'')"
    using loopBody_reply [OF that(1), of env s] that(2)
    by (auto simp: encode_members)
  show ?thesis
    using health fresh never others loopBody_whisperKit_loaded [of s env line]
      encode_no_null [of r] encode_distinct [of r] encode_members [of r]
    by blast
qed

theorem health_reply_and_omitted_fields_witness:
  \<open>req_type \<lparr>req_type = ''health'', model_path = None, audio_path = None,
              req_language = None\<rparr> = ''health''
   \<and> stdout (fst (switch testEnv
        \<lparr>req_type = ''health'', model_path = None, audio_path = None, req_language = None\<rparr>
        (started [])))
       = [[(''type'', JString ''health''), (''model_loaded'', JBool False)]]
   \<and> ''{"type":"load"}'' \<noteq> []
   \<and> \<not> (\<exists>request. JSONDecoder_decode testEnv ''{"type":"load"}'' = Some request
             \<and> req_type request = ''health'')
   \<and> (\<exists>r'. stdout (fst (loopBody testEnv ''{"type":"load"}'' (started [])))
              = [encode r']
            \<and> map_of (encode r') ''model_loaded'' = None)
   \<and> map_of (encode \<lparr>type = ''health'', success = None, text = None, error = None,
                       model_loaded = Some False\<rparr>) ''success'' = None
   \<and> map_of (encode \<lparr>type = ''health'', success = None, text = None, error = None,
                       model_loaded = Some False\<rparr>) ''model_loaded'' = Some (JBool False)\<close>
proof -
  let ?s = \<open>started [] :: (testKit, call list) Sidecar\<close>
  have fresh: \<open>whisperKit ?s = None\<close> \<open>stdout ?s = []\<close> \<open>stdout_buffer ?s = []\<close>
    by (simp_all add: started_def)
  have other: \<open>\<not> (\<exists>request. JSONDecoder_decode testEnv ''{"type":"load"}'' = Some request
                   \<and> req_type request = ''health'')\<close>
    by (simp add: testEnv_def testRequests_def)
  note t = health_reply_and_omitted_fields [where env = testEnv and s = ?s
      and w = \<open>[]\<close> and stdin = \<open>[''{"type":"load"}'']\<close>
      and request = \<open>\<lparr>req_type = ''health'', model_path = None, audio_path = None,
        req_language = None\<rparr>\<close>
      and line = \<open>''{"type":"load"}''\<close>
      and r = \<open>\<lparr>type = ''health'', success = None, text = None, error = None,
        model_loaded = Some False\<rparr>\<close>]
  from t other have written:
    \<open>stdout (fst (switch testEnv
        \<lparr>req_type = ''health'', model_path = None, audio_path = None, req_language = None\<rparr>
        ?s))
       = stdout ?s @ stdout_buffer ?s
         @ [[(''type'', JString ''health''), (''model_loaded'', JBool (whisperKit ?s \<noteq> None))]]\<close>
    \<open>\<exists>r'. stdout (fst (loopBody testEnv ''{"type":"load"}'' ?s))
              = stdout ?s @ stdout_buffer ?s @ [encode r']
            \<and> map_of (encode r') ''model_loaded'' = None\<close>
    \<open>map_of (encode \<lparr>type = ''health'', success = None, text = None, error = None,
                       model_loaded = Some False\<rparr>) ''success'' = None\<close>
    \<open>map_of (encode \<lparr>type = ''health'', success = None, text = None, error = None,
                       model_loaded = Some False\<rparr>) ''model_loaded'' = Some (JBool False)\<close>
    by auto
  from written other show ?thesis
    unfolding fresh by simp
qed

subsection \<open>Shutdown in the middle of the input\<close>

text \<open>
  The loop over a list of lines followed by more lines, and the loop over lines none of
  which is a \<^verbatim>\<open>shutdown\<close> request: it reads them all and writes one reply for each
  non-empty one.
\<close>

lemma mainLoop_append:
  "mainLoop env (pre @ rest) s
     = (case mainLoop env pre s of
          (s', Continue, unread) \<Rightarrow> mainLoop env rest s'
        | (s', Exit code, unread) \<Rightarrow> (s', Exit code, unread @ rest))"
proof (induction pre arbitrary: s)
  case Nil
  show ?case by simp
next
  case (Cons line pre)
  obtain s' c where step: "loopBody env line s = (s', c)"
    by (cases "loopBody env line s")
  with Cons.IH [of s'] show ?case
    by (cases c) simp_all
qed

lemma mainLoop_without_shutdown:
  assumes "\<forall>l\<in>set pre. \<not> (l \<noteq> [] \<and> (\<exists>request. JSONDecoder_decode env l = Some request
                                          \<and> req_type request = ''shutdown''))"
    and "stdout_buffer s = []"
  shows "\<exists>s' replies.
           mainLoop env pre s = (s', Continue, [])
           \<and> stdout s' = stdout s @ replies \<and> stdout_buffer s' = []
           \<and> length replies = length (filter (\<lambda>l. l \<noteq> []) pre)"
  using assms
proof (induction pre arbitrary: s)
  case Nil
  then show ?case by simp
next
  case (Cons line pre)
  obtain s1 c where step: "loopBody env line s = (s1, c)"
    by (cases "loopBody env line s")
  have "snd (loopBody env line s) = Continue"
    unfolding loopBody_control using Cons.prems(1) by auto
  with step have c: "c = Continue"
    by simp
  have first: "\<exists>new. stdout s1 = stdout s @ new \<and> stdout_buffer s1 = []
                  \<and> length new = (if line = [] then 0 else 1)"
  proof (cases "line = []")
    case True
    with step Cons.prems(2) show ?thesis
      by (simp add: loopBody_def)
  next
    case False
    from loopBody_reply [OF False, of env s] step Cons.prems(2) False show ?thesis
      by auto
  qed
  then obtain new where new: "stdout s1 = stdout s @ new" "stdout_buffer s1 = []"
      "length new = (if line = [] then 0 else 1)"
    by blast
  from Cons.prems(1) have "\<forall>l\<in>set pre. \<not> (l \<noteq> [] \<and> (\<exists>request.
      JSONDecoder_decode env l = Some request \<and> req_type request = ''shutdown''))"
    by simp
  from Cons.IH [OF this new(2)] obtain s' replies where rest:
      "mainLoop env pre s1 = (s', Continue, [])" "stdout s' = stdout s1 @ replies"
      "stdout_buffer s' = []" "length replies = length (filter (\<lambda>l. l \<noteq> []) pre)"
    by blast
  show ?case
    using step c rest new
    by (intro exI [of _ s'] exI [of _ "new @ replies"]) simp
qed

text \<open>
  Claim C6. Let the input be lines without a \<^verbatim>\<open>shutdown\<close> request, then a \<^verbatim>\<open>shutdown\<close>
  request, then any further lines. The lines before the request are processed in order
  and get one reply for each non-empty line, the same replies as if the input had ended
  there. Then the reply of type \<^verbatim>\<open>shutdown_ack\<close> is written and flushed (nothing is left in
  the buffer), the process exits with code 0, and the further lines are all left unread:
  the final state does not depend on them and no reply follows the acknowledgement.
\<close>

theorem shutdown_in_order:
  fixes env :: "('kit, 'world) Collaborators"
  assumes "\<forall>l\<in>set pre. \<not> (l \<noteq> [] \<and> (\<exists>request. JSONDecoder_decode env l = Some request
                                          \<and> req_type request = ''shutdown''))"
    and "line \<noteq> []"
    and "JSONDecoder_decode env line = Some request"
    and "req_type request = ''shutdown''"
  shows "\<exists>s' replies.
           mainLoop env pre (log ''WhisperKit sidecar started, waiting for commands...'' (started w))
             = (s', Continue, [])
           \<and> stdout s' = replies
           \<and> length replies = length (filter (\<lambda>l. l \<noteq> []) pre)
           \<and> stdout (fst (main env w pre)) = replies
           \<and> main env w (pre @ line # post)
               = (log ''Shutdown requested, exiting''
                    (reply \<lparr>type = ''shutdown_ack'', success = Some True, text = None,
                            error = None, model_loaded = None\<rparr> s'),
                  0, post)
           \<and> stdout (fst (main env w (pre @ line # post)))
               = replies @ [[(''type'', JString ''shutdown_ack''), (''success'', JBool True)]]
           \<and> stdout_buffer (fst (main env w (pre @ line # post))) = []"
proof -
  let ?s0 = "log ''WhisperKit sidecar started, waiting for commands...'' (started w)
             :: ('kit, 'world) Sidecar"
  have clean: "stdout_buffer ?s0 = []" "stdout ?s0 = []"
    by (simp_all add: started_def)
  from mainLoop_without_shutdown [OF assms(1) clean(1)] obtain s' replies where before:
      "mainLoop env pre ?s0 = (s', Continue, [])" "stdout s' = stdout ?s0 @ replies"
      "stdout_buffer s' = []" "length replies = length (filter (\<lambda>l. l \<noteq> []) pre)"
    by blast
  have leave: "loopBody env line s'
      = (log ''Shutdown requested, exiting''
           (reply \<lparr>type = ''shutdown_ack'', success = Some True, text = None,
                   error = None, model_loaded = None\<rparr> s'), Exit 0)"
    using assms(2,3,4) by (simp add: loopBody_def switch_def Response_init_def)
  have whole: "mainLoop env (pre @ line # post) ?s0
      = (log ''Shutdown requested, exiting''
           (reply \<lparr>type = ''shutdown_ack'', success = Some True, text = None,
                   error = None, model_loaded = None\<rparr> s'), Exit 0, post)"
    unfolding mainLoop_append before(1) by (simp add: leave)
  have alone: "stdout (fst (main env w pre)) = replies"
    using before(1,2) clean(2) by (simp add: main_def)
  have result: "main env w (pre @ line # post)
      = (log ''Shutdown requested, exiting''
           (reply \<lparr>type = ''shutdown_ack'', success = Some True, text = None,
                   error = None, model_loaded = None\<rparr> s'), 0, post)"
    using whole by (simp add: main_def)
  have written: "stdout (fst (main env w (pre @ line # post)))
      = replies @ [[(''type'', JString ''shutdown_ack''), (''success'', JBool True)]]"
    unfolding result using before(2,3) clean(2)
    by (simp add: encode_def encodeIfPresent_def)
  have flushed: "stdout_buffer (fst (main env w (pre @ line # post))) = []"
    unfolding result by simp
  from before(1,2,4) clean(2) alone result written flushed show ?thesis
    by (intro exI [of _ s'] exI [of _ replies]) simp
qed

theorem shutdown_in_order_witness:
  \<open>map (map_option req_type \<circ> JSONDecoder_decode testEnv)
     [''{"type":"health"}'', [], ''{"type":"load","model_path":"/models/base"}'']
     = [Some ''health'', None, Some ''load'']
   \<and> JSONDecoder_decode testEnv ''{"type":"shutdown"}''
       = Some \<lparr>req_type = ''shutdown'', model_path = None, audio_path = None,
               req_language = None\<rparr>
   \<and> snd (main testEnv []
        ([''{"type":"health"}'', [], ''{"type":"load","model_path":"/models/base"}'']
         @ ''{"type":"shutdown"}'' # [''{"type":"health"}'', ''{"type":"unload"}'']))
       = (0, [''{"type":"health"}'', ''{"type":"unload"}''])
   \<and> stdout (fst (main testEnv []
        ([''{"type":"health"}'', [], ''{"type":"load","model_path":"/models/base"}'']
         @ ''{"type":"shutdown"}'' # [''{"type":"health"}'', ''{"type":"unload"}''])))
       = [[(''type'', JString ''health''), (''model_loaded'', JBool False)],
          [(''type'', JString ''loaded''), (''success'', JBool True)],
          [(''type'', JString ''shutdown_ack''), (''success'', JBool True)]]\<close>
proof -
  let ?pre = \<open>[''{"type":"health"}'', [], ''{"type":"load","model_path":"/models/base"}'']\<close>
  let ?line = \<open>''{"type":"shutdown"}''\<close>
  let ?post = \<open>[''{"type":"health"}'', ''{"type":"unload"}'']\<close>
  let ?request = \<open>\<lparr>req_type = ''shutdown'', model_path = None, audio_path = None,
                    req_language = None\<rparr>\<close>
  have quiet: \<open>\<forall>l\<in>set ?pre. \<not> (l \<noteq> [] \<and> (\<exists>request.
      JSONDecoder_decode testEnv l = Some request \<and> req_type request = ''shutdown''))\<close>
    by (simp add: testEnv_def testRequests_def)
  have nonempty: \<open>?line \<noteq> []\<close>
    by simp
  have decoded: \<open>JSONDecoder_decode testEnv ?line = Some ?request\<close>
    by (simp add: testEnv_def testRequests_def)
  have shutdown: \<open>req_type ?request = ''shutdown''\<close>
    by simp
  have earlier: \<open>stdout (fst (main testEnv [] ?pre))
      = [[(''type'', JString ''health''), (''model_loaded'', JBool False)],
         [(''type'', JString ''loaded''), (''success'', JBool True)]]\<close>
    by code_simp
  from shutdown_in_order [OF quiet nonempty decoded shutdown, of \<open>[]\<close> ?post]
  obtain s' replies where
      \<open>stdout (fst (main testEnv [] ?pre)) = replies\<close>
      \<open>main testEnv [] (?pre @ ?line # ?post)
         = (log ''Shutdown requested, exiting''
              (reply \<lparr>type = ''shutdown_ack'', success = Some True, text = None,
                      error = None, model_loaded = None\<rparr> s'), 0, ?post)\<close>
      \<open>stdout (fst (main testEnv [] (?pre @ ?line # ?post)))
         = replies @ [[(''type'', JString ''shutdown_ack''), (''success'', JBool True)]]\<close>
    by blast
  moreover have \<open>map (map_option req_type \<circ> JSONDecoder_decode testEnv) ?pre
      = [Some ''health'', None, Some ''load'']\<close>
    by (simp add: testEnv_def testRequests_def)
  ultimately show ?thesis
    using earlier decoded by simp
qed

end
